theory Spec2Isabelle
  imports Main "HOL-Library.Word"
begin

section \<open>The Cupti service of Caliper: callback routing and domain enablement\<close>

text \<open>
  A shallow embedding of \<^verbatim>\<open>src/services/cupti/Cupti.cpp\<close>. The file-scope
  variables of the service (the counters, \<^verbatim>\<open>cupti_info\<close>, the subscriber handle and
  the event sampling object) are the fields of one record that every function takes and
  returns. What the service does to its collaborators (the attribute calls and snapshots
  on the Caliper instance, the calls on the event sampling object, the log lines and the
  connections to the lifecycle events) is appended, in the order of the calls, to the
  field \<open>trace\<close>. The vendor library is a parameter: a record of the results its
  functions return.
\<close>

subsection \<open>Vendor types\<close>

text \<open>Opaque vendor handles.\<close>

type_synonym CUcontext = nat
type_synonym CUstream = nat

text \<open>The service compares a result with \<^verbatim>\<open>CUPTI_SUCCESS\<close> only.\<close>

datatype CUptiResult = CUPTI_SUCCESS | CUPTI_ERROR nat

datatype CUpti_CallbackDomain =
    CUPTI_CB_DOMAIN_INVALID
  | CUPTI_CB_DOMAIN_DRIVER_API
  | CUPTI_CB_DOMAIN_RUNTIME_API
  | CUPTI_CB_DOMAIN_RESOURCE
  | CUPTI_CB_DOMAIN_SYNCHRONIZE
  | CUPTI_CB_DOMAIN_NVTX

text \<open>
  The callback ids of the resource and the synchronize domain; the last constructor
  stands for every id the handlers have no case for.
\<close>

datatype CUpti_CallbackIdResource =
    CUPTI_CBID_RESOURCE_CONTEXT_CREATED
  | CUPTI_CBID_RESOURCE_CONTEXT_DESTROY_STARTING
  | CUPTI_CBID_RESOURCE_STREAM_CREATED
  | CUPTI_CBID_RESOURCE_STREAM_DESTROY_STARTING
  | CUPTI_CBID_RESOURCE_OTHER nat

datatype CUpti_CallbackIdSync =
    CUPTI_CBID_SYNCHRONIZE_STREAM_SYNCHRONIZED
  | CUPTI_CBID_SYNCHRONIZE_CONTEXT_SYNCHRONIZED
  | CUPTI_CBID_SYNCHRONIZE_OTHER nat

text \<open>
  \<^verbatim>\<open>CUpti_ResourceData\<close> with its fields \<^verbatim>\<open>context\<close> and
  \<^verbatim>\<open>resourceHandle.stream\<close>, and \<^verbatim>\<open>CUpti_SynchronizeData\<close> with
  \<^verbatim>\<open>context\<close> and \<^verbatim>\<open>stream\<close>.
\<close>

record CUpti_ResourceData =
  res_context :: CUcontext
  res_stream :: CUstream

record CUpti_SynchronizeData =
  sync_context :: CUcontext
  sync_stream :: CUstream

datatype CUpti_ApiCallbackSite =
    CUPTI_API_ENTER
  | CUPTI_API_EXIT
  | CUPTI_API_CBSITE_OTHER

text \<open>
  \<^verbatim>\<open>CUpti_CallbackData\<close>: the handler reads the call site, the function name and
  the symbol name, which it tests for a null pointer (\<open>None\<close>).
\<close>

record CUpti_CallbackData =
  callbackSite :: CUpti_ApiCallbackSite
  functionName :: string
  symbolName :: "string option"

text \<open>
  An NVTX callback: the callback id together with the parameter structure that
  \<^verbatim>\<open>functionParams\<close> points to for that id. The push forms carry the message
  (\<^verbatim>\<open>message\<close>, or \<^verbatim>\<open>eventAttrib->message.ascii\<close>), which the handler reads
  as a C string without a test; the domain-scoped forms carry the domain handle as well.
\<close>

datatype CUpti_NvtxData =
    CUPTI_CBID_NVTX_nvtxRangePushA string
  | CUPTI_CBID_NVTX_nvtxRangePushEx string
  | CUPTI_CBID_NVTX_nvtxRangePop
  | CUPTI_CBID_NVTX_nvtxDomainRangePushEx nat string
  | CUPTI_CBID_NVTX_nvtxDomainRangePop nat
  | CUPTI_CBID_NVTX_OTHER nat

text \<open>
  One delivery to the callback router. The vendor library fixes the type of the payload
  by the domain, so each known domain comes with its own callback id and payload; any
  other domain is kept as its number.
\<close>

datatype callback =
    CB_RESOURCE CUpti_CallbackIdResource CUpti_ResourceData
  | CB_SYNCHRONIZE CUpti_CallbackIdSync CUpti_SynchronizeData
  | CB_RUNTIME_API nat CUpti_CallbackData
  | CB_DRIVER_API nat CUpti_CallbackData
  | CB_NVTX CUpti_NvtxData
  | CB_UNKNOWN nat

text \<open>
  The vendor library, as the results of its calls. An id query gives the id, or
  \<open>None\<close> when its result is not \<^verbatim>\<open>CUPTI_SUCCESS\<close>. The result of enabling a
  domain may depend on the domains enabled so far.
\<close>

record vendor =
  cuptiSubscribe :: CUptiResult
  cuptiEnableDomain :: "CUpti_CallbackDomain set \<Rightarrow> CUpti_CallbackDomain \<Rightarrow> CUptiResult"
  cuptiGetResultString :: "CUptiResult \<Rightarrow> string"
  cuptiGetDeviceId :: "CUcontext \<Rightarrow> 32 word option"
  cuptiGetContextId :: "CUcontext \<Rightarrow> 32 word option"
  cuptiGetStreamId :: "CUcontext \<Rightarrow> CUstream \<Rightarrow> 32 word option"

subsection \<open>Host types\<close>

datatype cali_attr_type = CALI_TYPE_STRING | CALI_TYPE_UINT | CALI_TYPE_BOOL

datatype cali_attr_properties = CALI_ATTR_DEFAULT | CALI_ATTR_NESTED | CALI_ATTR_SKIP_EVENTS

datatype Attribute =
    Attribute_invalid
  | Attribute string cali_attr_type cali_attr_properties

text \<open>
  A \<^verbatim>\<open>Variant\<close>: a string with the length given to the constructor
  \<^verbatim>\<open>Variant(CALI_TYPE_STRING, data, size)\<close>, or an unsigned 64-bit value.
\<close>

datatype Variant =
    Variant_string string nat
  | Variant_uint "64 word"

datatype cali_scope = CALI_SCOPE_PROCESS | CALI_SCOPE_THREAD | CALI_SCOPE_TASK

datatype hook = Hook_snapshot_cb | Hook_post_init_cb | Hook_finish_cb

text \<open>One item written to a log stream with \<^verbatim>\<open><<\<close>.\<close>

datatype log_item = Text string | Number nat

datatype event =
    Cali_set Attribute Variant
  | Cali_begin Attribute Variant
  | Cali_end Attribute
  | Cali_push_snapshot "cali_scope set" "(Attribute \<times> Variant) list"
  | Sampling_setup "32 word"
  | Sampling_enable CUcontext
  | Sampling_disable CUcontext
  | Log nat "log_item list"
  | Connect hook

subsection \<open>The data of the service\<close>

record ConfigSet =
  cfg_callback_domains :: string
  cfg_record_symbol :: bool
  cfg_record_context :: bool
  cfg_sample_events :: string
  cfg_sample_event_id :: "64 word"

record CallbackDomainInfo =
  cb_domain :: CUpti_CallbackDomain
  cb_name :: "string option"

text \<open>The table of domain names; the name of the last entry is the null pointer.\<close>

definition callback_domains :: "CallbackDomainInfo list" where
  "callback_domains =
     [ \<lparr>cb_domain = CUPTI_CB_DOMAIN_RUNTIME_API, cb_name = Some ''runtime''\<rparr>,
       \<lparr>cb_domain = CUPTI_CB_DOMAIN_DRIVER_API, cb_name = Some ''driver''\<rparr>,
       \<lparr>cb_domain = CUPTI_CB_DOMAIN_RESOURCE, cb_name = Some ''resource''\<rparr>,
       \<lparr>cb_domain = CUPTI_CB_DOMAIN_SYNCHRONIZE, cb_name = Some ''sync''\<rparr>,
       \<lparr>cb_domain = CUPTI_CB_DOMAIN_NVTX, cb_name = Some ''nvtx''\<rparr>,
       \<lparr>cb_domain = CUPTI_CB_DOMAIN_INVALID, cb_name = Some ''none''\<rparr>,
       \<lparr>cb_domain = CUPTI_CB_DOMAIN_INVALID, cb_name = None\<rparr> ]"

record CuptiServiceInfo =
  runtime_attr :: Attribute
  driver_attr :: Attribute
  resource_attr :: Attribute
  sync_attr :: Attribute
  nvtx_range_attr :: Attribute
  context_attr :: Attribute
  symbol_attr :: Attribute
  device_attr :: Attribute
  stream_attr :: Attribute
  record_context :: bool
  record_symbol :: bool

text \<open>
  Modelled from the spec: the class \<^verbatim>\<open>Cupti::EventSampling\<close>, whose source
  (\<^verbatim>\<open>CuptiEventSampling.h\<close> and its implementation) is missing. The spec gives
  its contract: a flag that says whether sampling is enabled, set up with the id of the
  counter to sample (a \<^verbatim>\<open>sample_event_id\<close> above 0), and one flag per context,
  "monitored", that \<^verbatim>\<open>enable_sampling_for_context\<close> sets and
  \<^verbatim>\<open>disable_sampling_for_context\<close> clears, both without effect when repeated.
\<close>

record EventSampling =
  m_enabled :: bool
  m_event_id :: "32 word"
  m_monitored :: "CUcontext set"

text \<open>
  Modelled from the spec: the operations of \<^verbatim>\<open>Cupti::EventSampling\<close> that the
  service calls (their source is missing), by the contract above.
\<close>

definition is_enabled :: "EventSampling \<Rightarrow> bool" where
  "is_enabled es = m_enabled es"

definition sampling_setup :: "32 word \<Rightarrow> EventSampling \<Rightarrow> EventSampling" where
  "sampling_setup event_id es = es\<lparr>m_enabled := True, m_event_id := event_id\<rparr>"

definition enable_sampling_for_context :: "CUcontext \<Rightarrow> EventSampling \<Rightarrow> EventSampling" where
  "enable_sampling_for_context ctx es = es\<lparr>m_monitored := insert ctx (m_monitored es)\<rparr>"

definition disable_sampling_for_context :: "CUcontext \<Rightarrow> EventSampling \<Rightarrow> EventSampling" where
  "disable_sampling_for_context ctx es = es\<lparr>m_monitored := m_monitored es - {ctx}\<rparr>"

text \<open>
  The variables of the service. The counters are \<^verbatim>\<open>unsigned\<close>, 32 bits wide;
  \<open>subscriber\<close> says whether the subscription was made and \<open>enabled_domains\<close> is
  the set of domains the vendor library has enabled for it.
\<close>

record state =
  cupti_info :: CuptiServiceInfo
  subscriber :: bool
  enabled_domains :: "CUpti_CallbackDomain set"
  num_cb :: "32 word"
  num_api_cb :: "32 word"
  num_resource_cb :: "32 word"
  num_sync_cb :: "32 word"
  num_nvtx_cb :: "32 word"
  event_sampling :: EventSampling
  trace :: "event list"

definition emit :: "event \<Rightarrow> state \<Rightarrow> state" where
  "emit e st = st\<lparr>trace := trace st @ [e]\<rparr>"

text \<open>The length of a C string: the number of characters before the first NUL.\<close>

definition strlen :: "string \<Rightarrow> nat" where
  "strlen s = length (takeWhile (\<lambda>c. c \<noteq> CHR 0x00) s)"

subsection \<open>Helper functions\<close>

definition print_cupti_error :: "vendor \<Rightarrow> nat \<Rightarrow> CUptiResult \<Rightarrow> string \<Rightarrow> state \<Rightarrow> state" where
  "print_cupti_error v level err func st =
     (let errstr = cuptiGetResultString v err
      in emit (Log level [Text ''cupti: '', Text func, Text '': error: '', Text errstr]) st)"

text \<open>
  Modelled from the spec: \<^verbatim>\<open>Caliper::make_entrylist\<close>, whose source is missing. By
  the spec a snapshot record is the ordered sequence of the first \<open>n\<close>
  (attribute, value) pairs of the two arrays.
\<close>

definition make_entrylist :: "nat \<Rightarrow> Attribute list \<Rightarrow> Variant list \<Rightarrow> (Attribute \<times> Variant) list" where
  "make_entrylist n attr vals = take n (zip attr vals)"

subsection \<open>Callback handling\<close>

definition handle_stream_event ::
  "vendor \<Rightarrow> CUcontext \<Rightarrow> CUstream \<Rightarrow> Attribute \<Rightarrow> Variant \<Rightarrow> state \<Rightarrow> state" where
  "handle_stream_event v ctx strm name_attr v_name st =
     (case cuptiGetDeviceId v ctx of
        None \<Rightarrow> st
      | Some device_id \<Rightarrow>
         (case cuptiGetContextId v ctx of
            None \<Rightarrow> st
          | Some context_id \<Rightarrow>
             (case cuptiGetStreamId v ctx strm of
                None \<Rightarrow> st
              | Some stream_id \<Rightarrow>
                 (let attr = [device_attr (cupti_info st), context_attr (cupti_info st),
                              stream_attr (cupti_info st), name_attr];
                      vals = [Variant_uint (ucast device_id), Variant_uint (ucast context_id),
                              Variant_uint (ucast stream_id), v_name];
                      trigger_info = make_entrylist 4 attr vals
                  in emit (Cali_push_snapshot {CALI_SCOPE_PROCESS, CALI_SCOPE_THREAD}
                             trigger_info) st))))"

definition handle_context_event ::
  "vendor \<Rightarrow> CUcontext \<Rightarrow> Attribute \<Rightarrow> Variant \<Rightarrow> state \<Rightarrow> state" where
  "handle_context_event v ctx name_attr v_name st =
     (case cuptiGetDeviceId v ctx of
        None \<Rightarrow> st
      | Some device_id \<Rightarrow>
         (case cuptiGetContextId v ctx of
            None \<Rightarrow> st
          | Some context_id \<Rightarrow>
             (let attr = [device_attr (cupti_info st), context_attr (cupti_info st), name_attr];
                  vals = [Variant_uint (ucast device_id), Variant_uint (ucast context_id),
                          v_name];
                  trigger_info = make_entrylist 3 attr vals
              in emit (Cali_push_snapshot {CALI_SCOPE_PROCESS, CALI_SCOPE_THREAD}
                         trigger_info) st)))"

text \<open>The two calls on the event sampling object, each recorded in the trace.\<close>

definition sampling_enable :: "CUcontext \<Rightarrow> state \<Rightarrow> state" where
  "sampling_enable ctx st =
     emit (Sampling_enable ctx)
       (st\<lparr>event_sampling := enable_sampling_for_context ctx (event_sampling st)\<rparr>)"

definition sampling_disable :: "CUcontext \<Rightarrow> state \<Rightarrow> state" where
  "sampling_disable ctx st =
     emit (Sampling_disable ctx)
       (st\<lparr>event_sampling := disable_sampling_for_context ctx (event_sampling st)\<rparr>)"

definition handle_resource ::
  "vendor \<Rightarrow> CUpti_CallbackIdResource \<Rightarrow> CUpti_ResourceData \<Rightarrow> state \<Rightarrow> state" where
  "handle_resource v cbid cbInfo st0 =
     (let st = st0\<lparr>num_resource_cb := num_resource_cb st0 + 1\<rparr>
      in case cbid of
           CUPTI_CBID_RESOURCE_CONTEXT_CREATED \<Rightarrow>
             (let st1 = (if is_enabled (event_sampling st)
                         then sampling_enable (res_context cbInfo) st else st)
              in handle_context_event v (res_context cbInfo) (resource_attr (cupti_info st1))
                   (Variant_string ''create_context'' 15) st1)
         | CUPTI_CBID_RESOURCE_CONTEXT_DESTROY_STARTING \<Rightarrow>
             (let st1 = (if is_enabled (event_sampling st)
                         then sampling_disable (res_context cbInfo) st else st)
              in handle_context_event v (res_context cbInfo) (resource_attr (cupti_info st1))
                   (Variant_string ''destroy_context'' 16) st1)
         | CUPTI_CBID_RESOURCE_STREAM_CREATED \<Rightarrow>
             handle_stream_event v (res_context cbInfo) (res_stream cbInfo)
               (resource_attr (cupti_info st)) (Variant_string ''create_stream'' 14) st
         | CUPTI_CBID_RESOURCE_STREAM_DESTROY_STARTING \<Rightarrow>
             handle_stream_event v (res_context cbInfo) (res_stream cbInfo)
               (resource_attr (cupti_info st)) (Variant_string ''destroy_stream'' 15) st
         | CUPTI_CBID_RESOURCE_OTHER n \<Rightarrow> st)"

definition handle_synchronize ::
  "vendor \<Rightarrow> CUpti_CallbackIdSync \<Rightarrow> CUpti_SynchronizeData \<Rightarrow> state \<Rightarrow> state" where
  "handle_synchronize v cbid cbInfo st0 =
     (let st = st0\<lparr>num_sync_cb := num_sync_cb st0 + 1\<rparr>
      in case cbid of
           CUPTI_CBID_SYNCHRONIZE_STREAM_SYNCHRONIZED \<Rightarrow>
             handle_stream_event v (sync_context cbInfo) (sync_stream cbInfo)
               (sync_attr (cupti_info st)) (Variant_string ''stream'' 7) st
         | CUPTI_CBID_SYNCHRONIZE_CONTEXT_SYNCHRONIZED \<Rightarrow>
             handle_context_event v (sync_context cbInfo)
               (sync_attr (cupti_info st)) (Variant_string ''context'' 8) st
         | CUPTI_CBID_SYNCHRONIZE_OTHER n \<Rightarrow> st)"

definition handle_callback :: "nat \<Rightarrow> CUpti_CallbackData \<Rightarrow> Attribute \<Rightarrow> state \<Rightarrow> state" where
  "handle_callback cbid cbInfo attr st0 =
     (let st = st0\<lparr>num_api_cb := num_api_cb st0 + 1\<rparr>
      in if callbackSite cbInfo = CUPTI_API_ENTER then
           (let st1 =
                  (case (record_symbol (cupti_info st), symbolName cbInfo) of
                     (True, Some sname) \<Rightarrow>
                       emit (Cali_set (symbol_attr (cupti_info st))
                               (Variant_string sname (strlen sname))) st
                   | _ \<Rightarrow> st);
                v_fname = Variant_string (functionName cbInfo) (strlen (functionName cbInfo))
            in emit (Cali_begin attr v_fname) st1)
         else if callbackSite cbInfo = CUPTI_API_EXIT then
           (let st1 = emit (Cali_end attr) st
            in if record_symbol (cupti_info st) \<and> symbolName cbInfo \<noteq> None
               then emit (Cali_end (symbol_attr (cupti_info st))) st1
               else st1)
         else st)"

definition handle_nvtx :: "CUpti_NvtxData \<Rightarrow> state \<Rightarrow> state" where
  "handle_nvtx cbInfo st0 =
     (let st = st0\<lparr>num_nvtx_cb := num_nvtx_cb st0 + 1\<rparr>
      in case cbInfo of
           CUPTI_CBID_NVTX_nvtxRangePushA msg \<Rightarrow>
             emit (Cali_begin (nvtx_range_attr (cupti_info st))
                     (Variant_string msg (strlen msg + 1))) st
         | CUPTI_CBID_NVTX_nvtxRangePushEx msg \<Rightarrow>
             emit (Cali_begin (nvtx_range_attr (cupti_info st))
                     (Variant_string msg (strlen msg + 1))) st
         | CUPTI_CBID_NVTX_nvtxRangePop \<Rightarrow>
             emit (Cali_end (nvtx_range_attr (cupti_info st))) st
         | CUPTI_CBID_NVTX_nvtxDomainRangePushEx handle msg \<Rightarrow>
             emit (Cali_begin (nvtx_range_attr (cupti_info st))
                     (Variant_string msg (strlen msg + 1))) st
         | CUPTI_CBID_NVTX_nvtxDomainRangePop handle \<Rightarrow>
             emit (Cali_end (nvtx_range_attr (cupti_info st))) st
         | CUPTI_CBID_NVTX_OTHER n \<Rightarrow> st)"

definition cupti_callback :: "vendor \<Rightarrow> callback \<Rightarrow> state \<Rightarrow> state" where
  "cupti_callback v cb st0 =
     (let st = st0\<lparr>num_cb := num_cb st0 + 1\<rparr>
      in case cb of
           CB_RESOURCE cbid cbInfo \<Rightarrow> handle_resource v cbid cbInfo st
         | CB_SYNCHRONIZE cbid cbInfo \<Rightarrow> handle_synchronize v cbid cbInfo st
         | CB_RUNTIME_API cbid cbInfo \<Rightarrow>
             handle_callback cbid cbInfo (runtime_attr (cupti_info st)) st
         | CB_DRIVER_API cbid cbInfo \<Rightarrow>
             handle_callback cbid cbInfo (driver_attr (cupti_info st)) st
         | CB_NVTX cbInfo \<Rightarrow> handle_nvtx cbInfo st
         | CB_UNKNOWN n \<Rightarrow>
             emit (Log 2 [Text ''cupti: Unknown callback domain '', Number n]) st)"

subsection \<open>Startup\<close>

text \<open>
  Modelled from the spec: \<^verbatim>\<open>to_stringlist\<close> of the configuration value, whose source
  is missing. By the spec \<^verbatim>\<open>callback_domains\<close> is a delimited list of tokens: the
  string is cut at every separator character, and a token is a non-empty run of other
  characters. \<open>split_words seps w cs\<close> reads \<open>cs\<close> with the token \<open>w\<close> begun.
\<close>

fun split_words :: "string \<Rightarrow> string \<Rightarrow> string \<Rightarrow> string list" where
  "split_words seps w [] = (if w = [] then [] else [w])"
| "split_words seps w (c # cs) =
     (if c \<in> set seps
      then (if w = [] then split_words seps [] cs else w # split_words seps [] cs)
      else split_words seps (w @ [c]) cs)"

text \<open>
  Modelled from the spec: \<^verbatim>\<open>to_stringlist(separators)\<close>, the tokens of the whole
  string.
\<close>

definition to_stringlist :: "string \<Rightarrow> string \<Rightarrow> string list" where
  "to_stringlist seps str = split_words seps [] str"

text \<open>
  The inner loop of \<^verbatim>\<open>register_callback_domains\<close>: it walks the table until the
  name is null or equal to \<open>s\<close>, and gives the entry it stops at. \<open>None\<close> is a walk
  past the end of the table, which the last entry of \<open>callback_domains\<close> excludes.
\<close>

fun find_cbinfo :: "CallbackDomainInfo list \<Rightarrow> string \<Rightarrow> CallbackDomainInfo option" where
  "find_cbinfo [] s = None"
| "find_cbinfo (cbinfo # rest) s =
     (if cb_name cbinfo \<noteq> None \<and> Some s \<noteq> cb_name cbinfo
      then find_cbinfo rest s else Some cbinfo)"

definition dquote :: string where
  "dquote = [CHR 0x22]"

text \<open>
  The loop of \<^verbatim>\<open>register_callback_domains\<close> over the domain names. The result is
  \<open>False\<close> where the source returns \<^verbatim>\<open>false\<close> from inside the loop.
\<close>

fun enable_callback_domains :: "vendor \<Rightarrow> string list \<Rightarrow> state \<Rightarrow> bool \<times> state" where
  "enable_callback_domains v [] st = (True, st)"
| "enable_callback_domains v (s # ss) st =
     (case find_cbinfo callback_domains s of
        None \<Rightarrow> (False, st)
      | Some cbinfo \<Rightarrow>
         (case cb_name cbinfo of
            None \<Rightarrow>
              enable_callback_domains v ss
                (emit (Log 0 [Text (''cupti: warning: Unknown callback domain '' @ dquote),
                              Text s, Text dquote]) st)
          | Some n \<Rightarrow>
              if cb_domain cbinfo \<noteq> CUPTI_CB_DOMAIN_INVALID then
                (let res = cuptiEnableDomain v (enabled_domains st) (cb_domain cbinfo)
                 in if res \<noteq> CUPTI_SUCCESS
                    then (False, print_cupti_error v 0 res ''cuptiEnableDomain'' st)
                    else enable_callback_domains v ss
                           (emit (Log 2 [Text (''cupti: enabled '' @ dquote), Text n,
                                         Text (dquote @ '' callback domain.'')])
                              (st\<lparr>enabled_domains :=
                                    insert (cb_domain cbinfo) (enabled_domains st)\<rparr>)))
              else enable_callback_domains v ss st))"

definition register_callback_domains :: "vendor \<Rightarrow> ConfigSet \<Rightarrow> state \<Rightarrow> bool \<times> state" where
  "register_callback_domains v config st =
     (let res = cuptiSubscribe v
      in if res \<noteq> CUPTI_SUCCESS
         then (False, print_cupti_error v 0 res ''cuptiSubscribe'' st)
         else
           (let st1 = st\<lparr>subscriber := True\<rparr>;
                cb_domain_names = to_stringlist '',:'' (cfg_callback_domains config)
            in if is_enabled (event_sampling st1) \<and> ''resource'' \<notin> set cb_domain_names
               then enable_callback_domains v (cb_domain_names @ [''resource''])
                      (emit (Log 1 [Text (''cupti: Event sampling requires resource callbacks, adding ''
                                          @ dquote @ ''resource'' @ dquote
                                          @ '' callback domain.'')]) st1)
               else enable_callback_domains v cb_domain_names st1))"

definition post_init_cb :: "state \<Rightarrow> state" where
  "post_init_cb st =
     st\<lparr>cupti_info := (cupti_info st)
        \<lparr>runtime_attr := Attribute ''cupti.runtimeAPI'' CALI_TYPE_STRING CALI_ATTR_NESTED,
         driver_attr := Attribute ''cupti.driverAPI'' CALI_TYPE_STRING CALI_ATTR_NESTED,
         resource_attr := Attribute ''cupti.resource'' CALI_TYPE_STRING CALI_ATTR_DEFAULT,
         sync_attr := Attribute ''cupti.sync'' CALI_TYPE_STRING CALI_ATTR_DEFAULT,
         nvtx_range_attr := Attribute ''nvtx.range'' CALI_TYPE_STRING CALI_ATTR_NESTED,
         context_attr := Attribute ''cupti.contextID'' CALI_TYPE_UINT CALI_ATTR_SKIP_EVENTS,
         symbol_attr := Attribute ''cupti.symbolName'' CALI_TYPE_STRING CALI_ATTR_SKIP_EVENTS,
         device_attr := Attribute ''cupti.deviceID'' CALI_TYPE_UINT CALI_ATTR_SKIP_EVENTS,
         stream_attr := Attribute ''cupti.streamID'' CALI_TYPE_UINT CALI_ATTR_SKIP_EVENTS\<rparr>\<rparr>"

definition cuptiservice_initialize :: "vendor \<Rightarrow> ConfigSet \<Rightarrow> state \<Rightarrow> state" where
  "cuptiservice_initialize v config st0 =
     (let st1 = st0\<lparr>num_cb := 0, num_api_cb := 0, num_resource_cb := 0,
                    num_sync_cb := 0, num_nvtx_cb := 0\<rparr>;
          sample_event_id = cfg_sample_event_id config;
          st2 = (if sample_event_id > 0
                 then emit (Sampling_setup (ucast sample_event_id))
                        (st1\<lparr>event_sampling :=
                               sampling_setup (ucast sample_event_id) (event_sampling st1)\<rparr>)
                 else st1);
          (ok, st3) = register_callback_domains v config st2
      in if \<not> ok then st3
         else
           (let st4 = st3\<lparr>cupti_info := (cupti_info st3)
                          \<lparr>record_context := cfg_record_context config,
                           record_symbol := cfg_record_symbol config\<rparr>\<rparr>;
                st5 = (if is_enabled (event_sampling st4)
                       then emit (Connect Hook_snapshot_cb) st4 else st4);
                st6 = emit (Connect Hook_post_init_cb) st5;
                st7 = emit (Connect Hook_finish_cb) st6
            in emit (Log 1 [Text ''Registered cupti service'']) st7))"

subsection \<open>Reading a trace\<close>

text \<open>The events that a run from \<open>st\<close> to \<open>st'\<close> has appended to the trace.\<close>

definition new_events :: "state \<Rightarrow> state \<Rightarrow> event list" where
  "new_events st st' = drop (length (trace st)) (trace st')"

text \<open>\<open>occurs_before a b xs\<close>: some \<open>a\<close> in \<open>xs\<close> has a \<open>b\<close> after it.\<close>

fun occurs_before :: "'a \<Rightarrow> 'a \<Rightarrow> 'a list \<Rightarrow> bool" where
  "occurs_before a b [] = False"
| "occurs_before a b (x # xs) = ((x = a \<and> b \<in> set xs) \<or> occurs_before a b xs)"

text \<open>
  The values of the last pair of every snapshot record of a trace: the tag, the way
  \<open>handle_stream_event\<close> and \<open>handle_context_event\<close> fill a record.
\<close>

fun tags :: "event list \<Rightarrow> Variant list" where
  "tags [] = []"
| "tags (Cali_push_snapshot scope (p # ps) # es) = snd (last (p # ps)) # tags es"
| "tags (e # es) = tags es"

text \<open>The lifecycle callbacks connected in a trace.\<close>

fun connects :: "event list \<Rightarrow> hook list" where
  "connects [] = []"
| "connects (Connect h # es) = h # connects es"
| "connects (e # es) = connects es"

definition counters :: "state \<Rightarrow> 32 word \<times> 32 word \<times> 32 word \<times> 32 word \<times> 32 word" where
  "counters st = (num_cb st, num_api_cb st, num_resource_cb st, num_sync_cb st, num_nvtx_cb st)"

subsection \<open>Nested API calls\<close>




text \<open>The API-call handler on a sequence of callbacks, in the order of delivery.\<close>

fun handle_callbacks :: "nat \<Rightarrow> CUpti_CallbackData list \<Rightarrow> Attribute \<Rightarrow> state \<Rightarrow> state" where
  "handle_callbacks cbid [] attr st = st"
| "handle_callbacks cbid (cbInfo # rest) attr st =
     handle_callbacks cbid rest attr (handle_callback cbid cbInfo attr st)"


text \<open>
  The names of the table that stand for a vendor domain, each with its domain: the
  entries with a name and a domain other than \<^verbatim>\<open>CUPTI_CB_DOMAIN_INVALID\<close>.
\<close>

definition known_domains :: "(string \<times> CUpti_CallbackDomain) list" where
  "known_domains =
     concat (map (\<lambda>e. case cb_name e of
                        None \<Rightarrow> []
                      | Some n \<Rightarrow> if cb_domain e \<noteq> CUPTI_CB_DOMAIN_INVALID
                                  then [(n, cb_domain e)] else [])
                 callback_domains)"


text \<open>
  The names that startup walks: the configured names, and \<^verbatim>\<open>"resource"\<close> at the
  back when sampling is enabled and the name is not among them.
\<close>

definition requested_names :: "ConfigSet \<Rightarrow> bool \<Rightarrow> string list" where
  "requested_names config sampling =
     (let names = to_stringlist '',:'' (cfg_callback_domains config)
      in if sampling \<and> ''resource'' \<notin> set names then names @ [''resource''] else names)"

text \<open>
  The first call of \<^verbatim>\<open>cuptiEnableDomain\<close> that the vendor library refuses when the
  names are walked in order from the set \<open>enabled\<close> of enabled domains, each accepted
  call adding its domain: the result of that call, or \<open>None\<close> when every call is
  accepted. Only the names of \<open>known_domains\<close> call the vendor library.
\<close>

fun first_refusal ::
  "vendor \<Rightarrow> string list \<Rightarrow> CUpti_CallbackDomain set \<Rightarrow> CUptiResult option" where
  "first_refusal v [] enabled = None"
| "first_refusal v (s # ss) enabled =
     (case map_of known_domains s of
        None \<Rightarrow> first_refusal v ss enabled
      | Some d \<Rightarrow>
          if cuptiEnableDomain v enabled d \<noteq> CUPTI_SUCCESS
          then Some (cuptiEnableDomain v enabled d)
          else first_refusal v ss (insert d enabled))"

text \<open>The lines of a trace logged at the level \<open>l\<close>, in order.\<close>

fun logs_at :: "nat \<Rightarrow> event list \<Rightarrow> log_item list list" where
  "logs_at l [] = []"
| "logs_at l (Log k items # es) = (if k = l then items # logs_at l es else logs_at l es)"
| "logs_at l (e # es) = logs_at l es"

text \<open>
  What the loop over the names has done when it has run from \<open>st\<close> to the result \<open>R\<close> and
  appended the events \<open>es\<close>: nothing is connected and only the enabled domains and the
  trace change; when the vendor library refuses a call, the result is \<open>False\<close> and the
  last event is the error line of that call's result; otherwise the result is \<open>True\<close>,
  the domains of the names are enabled, and the lines at level 0 are the warnings for the
  unknown names, in order.
\<close>

definition walked :: "vendor \<Rightarrow> string list \<Rightarrow> state \<Rightarrow> bool \<times> state \<Rightarrow> event list \<Rightarrow> bool" where
  "walked v names st R es \<longleftrightarrow>
     trace (snd R) = trace st @ es \<and> connects es = []
     \<and> cupti_info (snd R) = cupti_info st \<and> event_sampling (snd R) = event_sampling st
     \<and> (case first_refusal v names (enabled_domains st) of
           Some res \<Rightarrow>
             \<not> fst R \<and> res \<noteq> CUPTI_SUCCESS \<and> es \<noteq> []
             \<and> last es = Log 0 [Text ''cupti: '', Text ''cuptiEnableDomain'', Text '': error: '',
                                Text (cuptiGetResultString v res)]
         | None \<Rightarrow>
             fst R
             \<and> enabled_domains (snd R) =
                 enabled_domains st \<union> {d. \<exists>t\<in>set names. (t, d) \<in> set known_domains}
             \<and> logs_at 0 es =
                 map (\<lambda>t. [Text (''cupti: warning: Unknown callback domain '' @ dquote),
                            Text t, Text dquote])
                   (filter (\<lambda>t. t \<notin> fst ` set known_domains \<and> t \<noteq> ''none'') names))"

subsection \<open>Example inputs\<close>

text \<open>
  The variables of the service as the program starts: counters at zero, no attribute
  created, sampling not set up, nothing subscribed.
\<close>

definition initial_state :: state where
  "initial_state =
     \<lparr>cupti_info =
        \<lparr>runtime_attr = Attribute_invalid, driver_attr = Attribute_invalid,
         resource_attr = Attribute_invalid, sync_attr = Attribute_invalid,
         nvtx_range_attr = Attribute_invalid, context_attr = Attribute_invalid,
         symbol_attr = Attribute_invalid, device_attr = Attribute_invalid,
         stream_attr = Attribute_invalid, record_context = False, record_symbol = False\<rparr>,
      subscriber = False, enabled_domains = {},
      num_cb = 0, num_api_cb = 0, num_resource_cb = 0, num_sync_cb = 0, num_nvtx_cb = 0,
      event_sampling = \<lparr>m_enabled = False, m_event_id = 0, m_monitored = {}\<rparr>,
      trace = []\<rparr>"

text \<open>The names an example vendor library gives to its results.\<close>

fun example_result_string :: "CUptiResult \<Rightarrow> string" where
  "example_result_string CUPTI_SUCCESS = ''CUPTI_SUCCESS''"
| "example_result_string (CUPTI_ERROR n) =
     (if n = 1 then ''CUPTI_ERROR_INVALID_PARAMETER''
      else if n = 2 then ''CUPTI_ERROR_INVALID_DEVICE''
      else ''CUPTI_ERROR_UNKNOWN'')"

text \<open>
  A vendor library where every call succeeds, but the id queries on the null context
  and the stream query on stream 99.
\<close>

definition example_vendor :: vendor where
  "example_vendor =
     \<lparr>cuptiSubscribe = CUPTI_SUCCESS,
      cuptiEnableDomain = (\<lambda>enabled d. CUPTI_SUCCESS),
      cuptiGetResultString = example_result_string,
      cuptiGetDeviceId = (\<lambda>ctx. if ctx = 0 then None else Some 0),
      cuptiGetContextId = (\<lambda>ctx. if ctx = 0 then None else Some (of_nat ctx)),
      cuptiGetStreamId = (\<lambda>ctx strm. if strm = 99 then None else Some (of_nat strm))\<rparr>"

text \<open>The configuration \<^verbatim>\<open>callback_domains="sync"\<close>, \<^verbatim>\<open>sample_event_id=42\<close>.\<close>

definition example_config :: ConfigSet where
  "example_config =
     \<lparr>cfg_callback_domains = ''sync'', cfg_record_symbol = True, cfg_record_context = True,
      cfg_sample_events = [], cfg_sample_event_id = 42\<rparr>"

text \<open>The service after its initialization and the post-init callback.\<close>

definition running_state :: state where
  "running_state = post_init_cb (cuptiservice_initialize example_vendor example_config initial_state)"

section \<open>Properties\<close>

subsection \<open>Basic facts\<close>

lemma trace_emit [simp]: "trace (emit e st) = trace st @ [e]"
  by (simp add: emit_def)

lemma cupti_info_emit [simp]: "cupti_info (emit e st) = cupti_info st"
  by (simp add: emit_def)

lemma event_sampling_emit [simp]: "event_sampling (emit e st) = event_sampling st"
  by (simp add: emit_def)

lemma enabled_domains_emit [simp]: "enabled_domains (emit e st) = enabled_domains st"
  by (simp add: emit_def)

lemma subscriber_emit [simp]: "subscriber (emit e st) = subscriber st"
  by (simp add: emit_def)

lemma counters_emit [simp]: "counters (emit e st) = counters st"
  by (simp add: emit_def counters_def)

lemma new_events_append [simp]: "trace st' = trace st @ es \<Longrightarrow> new_events st st' = es"
  by (simp add: new_events_def)

lemma trace_handle_context_event:
  "trace (handle_context_event v ctx a x st) =
     trace st @
     (case cuptiGetDeviceId v ctx of
        None \<Rightarrow> []
      | Some device_id \<Rightarrow>
         (case cuptiGetContextId v ctx of
            None \<Rightarrow> []
          | Some context_id \<Rightarrow>
              [Cali_push_snapshot {CALI_SCOPE_PROCESS, CALI_SCOPE_THREAD}
                 [(device_attr (cupti_info st), Variant_uint (ucast device_id)),
                  (context_attr (cupti_info st), Variant_uint (ucast context_id)),
                  (a, x)]]))"
  by (simp add: handle_context_event_def make_entrylist_def split: option.splits)

lemma trace_handle_stream_event:
  "trace (handle_stream_event v ctx strm a x st) =
     trace st @
     (case cuptiGetDeviceId v ctx of
        None \<Rightarrow> []
      | Some device_id \<Rightarrow>
         (case cuptiGetContextId v ctx of
            None \<Rightarrow> []
          | Some context_id \<Rightarrow>
             (case cuptiGetStreamId v ctx strm of
                None \<Rightarrow> []
              | Some stream_id \<Rightarrow>
                  [Cali_push_snapshot {CALI_SCOPE_PROCESS, CALI_SCOPE_THREAD}
                     [(device_attr (cupti_info st), Variant_uint (ucast device_id)),
                      (context_attr (cupti_info st), Variant_uint (ucast context_id)),
                      (stream_attr (cupti_info st), Variant_uint (ucast stream_id)),
                      (a, x)]])))"
  by (simp add: handle_stream_event_def make_entrylist_def split: option.splits)

lemma trace_handle_callback:
  "trace (handle_callback cbid cbInfo attr st) =
     trace st @
     (if callbackSite cbInfo = CUPTI_API_ENTER then
        (case symbolName cbInfo of
           Some sname \<Rightarrow>
             if record_symbol (cupti_info st)
             then [Cali_set (symbol_attr (cupti_info st)) (Variant_string sname (strlen sname))]
             else []
         | None \<Rightarrow> [])
        @ [Cali_begin attr (Variant_string (functionName cbInfo) (strlen (functionName cbInfo)))]
      else if callbackSite cbInfo = CUPTI_API_EXIT then
        Cali_end attr #
        (if record_symbol (cupti_info st) \<and> symbolName cbInfo \<noteq> None
         then [Cali_end (symbol_attr (cupti_info st))] else [])
      else [])"
  by (simp add: handle_callback_def Let_def split: option.splits bool.splits)

lemma cupti_info_handle_callback [simp]:
  "cupti_info (handle_callback cbid cbInfo attr st) = cupti_info st"
  by (simp add: handle_callback_def Let_def split: option.splits bool.splits)

lemma trace_print_cupti_error [simp]:
  "trace (print_cupti_error v level err func st) =
     trace st @ [Log level [Text ''cupti: '', Text func, Text '': error: '',
                            Text (cuptiGetResultString v err)]]"
  "cupti_info (print_cupti_error v level err func st) = cupti_info st"
  by (simp_all add: print_cupti_error_def)

lemma counters_handle_stream_event [simp]:
  "counters (handle_stream_event v ctx strm a x st) = counters st"
  by (simp add: handle_stream_event_def split: option.splits)

lemma counters_handle_context_event [simp]:
  "counters (handle_context_event v ctx a x st) = counters st"
  by (simp add: handle_context_event_def split: option.splits)

lemma counters_sampling [simp]:
  "counters (sampling_enable ctx st) = counters st"
  "counters (sampling_disable ctx st) = counters st"
  by (simp_all add: sampling_enable_def sampling_disable_def counters_def emit_def)

lemma counters_handle_resource:
  "counters (handle_resource v cbid cbInfo st) =
     (num_cb st, num_api_cb st, num_resource_cb st + 1, num_sync_cb st, num_nvtx_cb st)"
  by (cases cbid) (simp_all add: handle_resource_def Let_def, simp_all add: counters_def)

lemma counters_handle_synchronize:
  "counters (handle_synchronize v cbid cbInfo st) =
     (num_cb st, num_api_cb st, num_resource_cb st, num_sync_cb st + 1, num_nvtx_cb st)"
  by (cases cbid) (simp_all add: handle_synchronize_def Let_def, simp_all add: counters_def)

lemma counters_handle_callback:
  "counters (handle_callback cbid cbInfo attr st) =
     (num_cb st, num_api_cb st + 1, num_resource_cb st, num_sync_cb st, num_nvtx_cb st)"
  by (simp add: handle_callback_def Let_def split: option.splits bool.splits, simp add: counters_def)

lemma counters_handle_nvtx:
  "counters (handle_nvtx cbInfo st) =
     (num_cb st, num_api_cb st, num_resource_cb st, num_sync_cb st, num_nvtx_cb st + 1)"
  by (cases cbInfo) (simp_all add: handle_nvtx_def Let_def, simp_all add: counters_def)

lemma connects_append [simp]: "connects (xs @ ys) = connects xs @ connects ys"
  by (induction xs rule: connects.induct) simp_all

lemma connects_Cons: "connects (e # es) = connects [e] @ connects es"
  by (cases e) simp_all

subsection \<open>The example inputs\<close>

lemma example_vendor_ids [simp]:
  "cuptiGetDeviceId example_vendor ctx = (if ctx = 0 then None else Some 0)"
  "cuptiGetContextId example_vendor ctx = (if ctx = 0 then None else Some (of_nat ctx))"
  "cuptiGetStreamId example_vendor ctx strm = (if strm = 99 then None else Some (of_nat strm))"
  by (simp_all add: example_vendor_def)

lemma example_vendor_calls [simp]:
  "cuptiSubscribe example_vendor = CUPTI_SUCCESS"
  "cuptiEnableDomain example_vendor enabled d = CUPTI_SUCCESS"
  "cuptiGetResultString example_vendor = example_result_string"
  by (simp_all add: example_vendor_def)

lemma initial_state_fields [simp]:
  "enabled_domains initial_state = {}"
  "trace initial_state = []"
  "event_sampling initial_state = \<lparr>m_enabled = False, m_event_id = 0, m_monitored = {}\<rparr>"
  by (simp_all add: initial_state_def)

lemma example_config_fields [simp]:
  "cfg_callback_domains example_config = ''sync''"
  "cfg_sample_event_id example_config = 42"
  "cfg_record_symbol example_config = True"
  "cfg_record_context example_config = True"
  by (simp_all add: example_config_def)

lemma to_stringlist_sync: "to_stringlist '',:'' ''sync'' = [''sync'']"
  by (simp add: to_stringlist_def)

lemma running_state_sampling: "is_enabled (event_sampling running_state)"
  by code_simp

lemma running_state_info:
  "cupti_info running_state =
     \<lparr>runtime_attr = Attribute ''cupti.runtimeAPI'' CALI_TYPE_STRING CALI_ATTR_NESTED,
      driver_attr = Attribute ''cupti.driverAPI'' CALI_TYPE_STRING CALI_ATTR_NESTED,
      resource_attr = Attribute ''cupti.resource'' CALI_TYPE_STRING CALI_ATTR_DEFAULT,
      sync_attr = Attribute ''cupti.sync'' CALI_TYPE_STRING CALI_ATTR_DEFAULT,
      nvtx_range_attr = Attribute ''nvtx.range'' CALI_TYPE_STRING CALI_ATTR_NESTED,
      context_attr = Attribute ''cupti.contextID'' CALI_TYPE_UINT CALI_ATTR_SKIP_EVENTS,
      symbol_attr = Attribute ''cupti.symbolName'' CALI_TYPE_STRING CALI_ATTR_SKIP_EVENTS,
      device_attr = Attribute ''cupti.deviceID'' CALI_TYPE_UINT CALI_ATTR_SKIP_EVENTS,
      stream_attr = Attribute ''cupti.streamID'' CALI_TYPE_UINT CALI_ATTR_SKIP_EVENTS,
      record_context = True, record_symbol = True\<rparr>"
  by code_simp

subsection \<open>The resource handler and sampling\<close>

text \<open>
  Claim C1, as the code has it. While sampling is enabled, a context-created event calls
  \<^verbatim>\<open>enable_sampling_for_context\<close> and then, when the two ids of the context
  resolve, emits the record of the device, the context and the tag
  \<^verbatim>\<open>create_context\<close>; a context-destroy-starting event calls
  \<^verbatim>\<open>disable_sampling_for_context\<close> first and emits the record with the tag
  \<^verbatim>\<open>destroy_context\<close> after it.
\<close>

theorem handle_resource_sampling_order:
  assumes "is_enabled (event_sampling st)"
  shows "new_events st (handle_resource v CUPTI_CBID_RESOURCE_CONTEXT_CREATED cbInfo st) =
           Sampling_enable (res_context cbInfo) #
           (case (cuptiGetDeviceId v (res_context cbInfo),
                  cuptiGetContextId v (res_context cbInfo)) of
              (Some device_id, Some context_id) \<Rightarrow>
                [Cali_push_snapshot {CALI_SCOPE_PROCESS, CALI_SCOPE_THREAD}
                   [(device_attr (cupti_info st), Variant_uint (ucast device_id)),
                    (context_attr (cupti_info st), Variant_uint (ucast context_id)),
                    (resource_attr (cupti_info st), Variant_string ''create_context'' 15)]]
            | _ \<Rightarrow> [])
       \<and> new_events st (handle_resource v CUPTI_CBID_RESOURCE_CONTEXT_DESTROY_STARTING cbInfo st) =
           Sampling_disable (res_context cbInfo) #
           (case (cuptiGetDeviceId v (res_context cbInfo),
                  cuptiGetContextId v (res_context cbInfo)) of
              (Some device_id, Some context_id) \<Rightarrow>
                [Cali_push_snapshot {CALI_SCOPE_PROCESS, CALI_SCOPE_THREAD}
                   [(device_attr (cupti_info st), Variant_uint (ucast device_id)),
                    (context_attr (cupti_info st), Variant_uint (ucast context_id)),
                    (resource_attr (cupti_info st), Variant_string ''destroy_context'' 16)]]
            | _ \<Rightarrow> [])"
  using assms
  by (simp add: handle_resource_def trace_handle_context_event sampling_enable_def
        sampling_disable_def split: option.splits)

theorem handle_resource_sampling_order_witness:
  "new_events running_state
     (handle_resource example_vendor CUPTI_CBID_RESOURCE_CONTEXT_CREATED
        \<lparr>res_context = 1, res_stream = 0\<rparr> running_state) =
     [Sampling_enable 1,
      Cali_push_snapshot {CALI_SCOPE_PROCESS, CALI_SCOPE_THREAD}
        [(Attribute ''cupti.deviceID'' CALI_TYPE_UINT CALI_ATTR_SKIP_EVENTS, Variant_uint 0),
         (Attribute ''cupti.contextID'' CALI_TYPE_UINT CALI_ATTR_SKIP_EVENTS, Variant_uint 1),
         (Attribute ''cupti.resource'' CALI_TYPE_STRING CALI_ATTR_DEFAULT,
          Variant_string ''create_context'' 15)]]
   \<and> new_events running_state
     (handle_resource example_vendor CUPTI_CBID_RESOURCE_CONTEXT_DESTROY_STARTING
        \<lparr>res_context = 1, res_stream = 0\<rparr> running_state) =
     [Sampling_disable 1,
      Cali_push_snapshot {CALI_SCOPE_PROCESS, CALI_SCOPE_THREAD}
        [(Attribute ''cupti.deviceID'' CALI_TYPE_UINT CALI_ATTR_SKIP_EVENTS, Variant_uint 0),
         (Attribute ''cupti.contextID'' CALI_TYPE_UINT CALI_ATTR_SKIP_EVENTS, Variant_uint 1),
         (Attribute ''cupti.resource'' CALI_TYPE_STRING CALI_ATTR_DEFAULT,
          Variant_string ''destroy_context'' 16)]]"
  using handle_resource_sampling_order [of running_state example_vendor
          "\<lparr>res_context = 1, res_stream = 0\<rparr>"]
  by (simp add: running_state_sampling running_state_info)

text \<open>
  Claim C1 as stated has the record of a context-destroy-starting event emitted before
  the call of \<^verbatim>\<open>disable_sampling_for_context\<close>. On the running service the call is
  the first event and the record the second: the record does not occur before the call.
\<close>

theorem destroy_record_first_counterexample:
  "is_enabled (event_sampling running_state)
   \<and> new_events running_state
       (handle_resource example_vendor CUPTI_CBID_RESOURCE_CONTEXT_DESTROY_STARTING
          \<lparr>res_context = 1, res_stream = 0\<rparr> running_state) =
       [Sampling_disable 1,
        Cali_push_snapshot {CALI_SCOPE_PROCESS, CALI_SCOPE_THREAD}
          [(Attribute ''cupti.deviceID'' CALI_TYPE_UINT CALI_ATTR_SKIP_EVENTS, Variant_uint 0),
           (Attribute ''cupti.contextID'' CALI_TYPE_UINT CALI_ATTR_SKIP_EVENTS, Variant_uint 1),
           (Attribute ''cupti.resource'' CALI_TYPE_STRING CALI_ATTR_DEFAULT,
            Variant_string ''destroy_context'' 16)]]
   \<and> \<not> occurs_before
         (Cali_push_snapshot {CALI_SCOPE_PROCESS, CALI_SCOPE_THREAD}
            [(Attribute ''cupti.deviceID'' CALI_TYPE_UINT CALI_ATTR_SKIP_EVENTS, Variant_uint 0),
             (Attribute ''cupti.contextID'' CALI_TYPE_UINT CALI_ATTR_SKIP_EVENTS, Variant_uint 1),
             (Attribute ''cupti.resource'' CALI_TYPE_STRING CALI_ATTR_DEFAULT,
              Variant_string ''destroy_context'' 16)])
         (Sampling_disable 1)
         (new_events running_state
            (handle_resource example_vendor CUPTI_CBID_RESOURCE_CONTEXT_DESTROY_STARTING
               \<lparr>res_context = 1, res_stream = 0\<rparr> running_state))"
proof -
  have e: "new_events running_state
       (handle_resource example_vendor CUPTI_CBID_RESOURCE_CONTEXT_DESTROY_STARTING
          \<lparr>res_context = 1, res_stream = 0\<rparr> running_state) =
       [Sampling_disable 1,
        Cali_push_snapshot {CALI_SCOPE_PROCESS, CALI_SCOPE_THREAD}
          [(Attribute ''cupti.deviceID'' CALI_TYPE_UINT CALI_ATTR_SKIP_EVENTS, Variant_uint 0),
           (Attribute ''cupti.contextID'' CALI_TYPE_UINT CALI_ATTR_SKIP_EVENTS, Variant_uint 1),
           (Attribute ''cupti.resource'' CALI_TYPE_STRING CALI_ATTR_DEFAULT,
            Variant_string ''destroy_context'' 16)]]"
    by (simp add: handle_resource_def trace_handle_context_event sampling_disable_def
          running_state_sampling running_state_info)
  show ?thesis
    unfolding e by (simp add: running_state_sampling)
qed

subsection \<open>The API-call handler\<close>

text \<open>
  Claim C3. With symbols recorded and a symbol name at both call sites, the entry of a
  call sets the symbol attribute and then begins the function-name attribute; the exit
  ends the function-name attribute and then the symbol attribute. An entry followed by
  its exit gives the four calls in this order, through the handler and through the
  callback router on the runtime domain.
\<close>

theorem handle_callback_enter_exit:
  assumes "record_symbol (cupti_info st)"
    and "callbackSite cb_enter = CUPTI_API_ENTER" and "symbolName cb_enter = Some sname"
    and "callbackSite cb_exit = CUPTI_API_EXIT" and "symbolName cb_exit = Some sname'"
  shows "new_events st (handle_callback cbid cb_enter attr st) =
           [Cali_set (symbol_attr (cupti_info st)) (Variant_string sname (strlen sname)),
            Cali_begin attr
              (Variant_string (functionName cb_enter) (strlen (functionName cb_enter)))]
       \<and> new_events st (handle_callback cbid' cb_exit attr st) =
           [Cali_end attr, Cali_end (symbol_attr (cupti_info st))]
       \<and> new_events st
           (handle_callback cbid' cb_exit attr (handle_callback cbid cb_enter attr st)) =
           [Cali_set (symbol_attr (cupti_info st)) (Variant_string sname (strlen sname)),
            Cali_begin attr
              (Variant_string (functionName cb_enter) (strlen (functionName cb_enter))),
            Cali_end attr, Cali_end (symbol_attr (cupti_info st))]
       \<and> new_events st
           (cupti_callback v (CB_RUNTIME_API cbid' cb_exit)
              (cupti_callback v (CB_RUNTIME_API cbid cb_enter) st)) =
           [Cali_set (symbol_attr (cupti_info st)) (Variant_string sname (strlen sname)),
            Cali_begin (runtime_attr (cupti_info st))
              (Variant_string (functionName cb_enter) (strlen (functionName cb_enter))),
            Cali_end (runtime_attr (cupti_info st)), Cali_end (symbol_attr (cupti_info st))]"
  using assms by (simp add: trace_handle_callback cupti_callback_def)

theorem handle_callback_enter_exit_witness:
  "new_events running_state
     (cupti_callback example_vendor
        (CB_RUNTIME_API 211
           \<lparr>callbackSite = CUPTI_API_EXIT, functionName = ''cudaLaunchKernel'',
            symbolName = Some ''saxpy''\<rparr>)
        (cupti_callback example_vendor
           (CB_RUNTIME_API 211
              \<lparr>callbackSite = CUPTI_API_ENTER, functionName = ''cudaLaunchKernel'',
               symbolName = Some ''saxpy''\<rparr>)
           running_state)) =
     [Cali_set (Attribute ''cupti.symbolName'' CALI_TYPE_STRING CALI_ATTR_SKIP_EVENTS)
        (Variant_string ''saxpy'' 5),
      Cali_begin (Attribute ''cupti.runtimeAPI'' CALI_TYPE_STRING CALI_ATTR_NESTED)
        (Variant_string ''cudaLaunchKernel'' 16),
      Cali_end (Attribute ''cupti.runtimeAPI'' CALI_TYPE_STRING CALI_ATTR_NESTED),
      Cali_end (Attribute ''cupti.symbolName'' CALI_TYPE_STRING CALI_ATTR_SKIP_EVENTS)]"
  using handle_callback_enter_exit [of running_state
          "\<lparr>callbackSite = CUPTI_API_ENTER, functionName = ''cudaLaunchKernel'',
            symbolName = Some ''saxpy''\<rparr>" "''saxpy''"
          "\<lparr>callbackSite = CUPTI_API_EXIT, functionName = ''cudaLaunchKernel'',
            symbolName = Some ''saxpy''\<rparr>" "''saxpy''" 211
          "runtime_attr (cupti_info running_state)" 211 example_vendor]
  by (simp add: running_state_info strlen_def)

subsection \<open>Nested API calls\<close>


lemma cupti_info_handle_callbacks [simp]:
  "cupti_info (handle_callbacks cbid cbs attr st) = cupti_info st"
  by (induction cbs arbitrary: st) simp_all











subsection \<open>Stream events\<close>

text \<open>
  Claim C4. When the device, context and stream ids all resolve, the stream handler
  appends exactly one snapshot record to the trace, with the four pairs device, context,
  stream and tag in this order, and changes nothing else; when any of the three fails,
  the state is unchanged: no record and no log line. The stream-created, the
  stream-destroy-starting and the stream-synchronized event each emit what the stream
  handler emits for their context, stream and tag.
\<close>

theorem handle_stream_event_record:
  "(cuptiGetDeviceId v ctx = Some device_id \<and> cuptiGetContextId v ctx = Some context_id
      \<and> cuptiGetStreamId v ctx strm = Some stream_id \<longrightarrow>
    handle_stream_event v ctx strm name_attr v_name st =
      st\<lparr>trace := trace st @
           [Cali_push_snapshot {CALI_SCOPE_PROCESS, CALI_SCOPE_THREAD}
              [(device_attr (cupti_info st), Variant_uint (ucast device_id)),
               (context_attr (cupti_info st), Variant_uint (ucast context_id)),
               (stream_attr (cupti_info st), Variant_uint (ucast stream_id)),
               (name_attr, v_name)]]\<rparr>)
   \<and> (cuptiGetDeviceId v ctx = None \<or> cuptiGetContextId v ctx = None
        \<or> cuptiGetStreamId v ctx strm = None \<longrightarrow>
      handle_stream_event v ctx strm name_attr v_name st = st)
   \<and> new_events st (handle_resource v CUPTI_CBID_RESOURCE_STREAM_CREATED rdata st) =
       new_events st (handle_stream_event v (res_context rdata) (res_stream rdata)
                        (resource_attr (cupti_info st)) (Variant_string ''create_stream'' 14) st)
   \<and> new_events st (handle_resource v CUPTI_CBID_RESOURCE_STREAM_DESTROY_STARTING rdata st) =
       new_events st (handle_stream_event v (res_context rdata) (res_stream rdata)
                        (resource_attr (cupti_info st)) (Variant_string ''destroy_stream'' 15) st)
   \<and> new_events st (handle_synchronize v CUPTI_CBID_SYNCHRONIZE_STREAM_SYNCHRONIZED sdata st) =
       new_events st (handle_stream_event v (sync_context sdata) (sync_stream sdata)
                        (sync_attr (cupti_info st)) (Variant_string ''stream'' 7) st)"
proof -
  have a: "cuptiGetDeviceId v ctx = Some device_id \<and> cuptiGetContextId v ctx = Some context_id
      \<and> cuptiGetStreamId v ctx strm = Some stream_id \<longrightarrow>
    handle_stream_event v ctx strm name_attr v_name st =
      st\<lparr>trace := trace st @
           [Cali_push_snapshot {CALI_SCOPE_PROCESS, CALI_SCOPE_THREAD}
              [(device_attr (cupti_info st), Variant_uint (ucast device_id)),
               (context_attr (cupti_info st), Variant_uint (ucast context_id)),
               (stream_attr (cupti_info st), Variant_uint (ucast stream_id)),
               (name_attr, v_name)]]\<rparr>"
    by (simp add: handle_stream_event_def make_entrylist_def emit_def)
  have b: "cuptiGetDeviceId v ctx = None \<or> cuptiGetContextId v ctx = None
        \<or> cuptiGetStreamId v ctx strm = None \<longrightarrow>
      handle_stream_event v ctx strm name_attr v_name st = st"
    by (auto simp: handle_stream_event_def split: option.splits)
  have c: "new_events st (handle_resource v CUPTI_CBID_RESOURCE_STREAM_CREATED rdata st) =
       new_events st (handle_stream_event v (res_context rdata) (res_stream rdata)
                        (resource_attr (cupti_info st)) (Variant_string ''create_stream'' 14) st)"
    "new_events st (handle_resource v CUPTI_CBID_RESOURCE_STREAM_DESTROY_STARTING rdata st) =
       new_events st (handle_stream_event v (res_context rdata) (res_stream rdata)
                        (resource_attr (cupti_info st)) (Variant_string ''destroy_stream'' 15) st)"
    "new_events st (handle_synchronize v CUPTI_CBID_SYNCHRONIZE_STREAM_SYNCHRONIZED sdata st) =
       new_events st (handle_stream_event v (sync_context sdata) (sync_stream sdata)
                        (sync_attr (cupti_info st)) (Variant_string ''stream'' 7) st)"
    by (simp_all add: handle_resource_def handle_synchronize_def trace_handle_stream_event
          new_events_def split: option.splits)
  show ?thesis
    using a b c by blast
qed

theorem handle_stream_event_record_witness:
  "handle_stream_event example_vendor 1 7 (sync_attr (cupti_info running_state))
       (Variant_string ''stream'' 7) running_state =
     running_state\<lparr>trace := trace running_state @
        [Cali_push_snapshot {CALI_SCOPE_PROCESS, CALI_SCOPE_THREAD}
           [(device_attr (cupti_info running_state), Variant_uint 0),
            (context_attr (cupti_info running_state), Variant_uint 1),
            (stream_attr (cupti_info running_state), Variant_uint 7),
            (sync_attr (cupti_info running_state), Variant_string ''stream'' 7)]]\<rparr>
   \<and> handle_stream_event example_vendor 1 99 (sync_attr (cupti_info running_state))
       (Variant_string ''stream'' 7) running_state = running_state
   \<and> handle_stream_event example_vendor 0 7 (sync_attr (cupti_info running_state))
       (Variant_string ''stream'' 7) running_state = running_state"
  using handle_stream_event_record [of example_vendor 1 0 1 7 7
          "sync_attr (cupti_info running_state)" "Variant_string ''stream'' 7" running_state]
        handle_stream_event_record [of example_vendor 1 0 1 99 7
          "sync_attr (cupti_info running_state)" "Variant_string ''stream'' 7" running_state]
        handle_stream_event_record [of example_vendor 0 0 1 7 7
          "sync_attr (cupti_info running_state)" "Variant_string ''stream'' 7" running_state]
  by (simp add: example_vendor_def)

subsection \<open>Domain names at startup\<close>

lemma find_cbinfo_callback_domains:
  "find_cbinfo callback_domains s =
     Some (if s = ''runtime'' then \<lparr>cb_domain = CUPTI_CB_DOMAIN_RUNTIME_API, cb_name = Some ''runtime''\<rparr>
           else if s = ''driver'' then \<lparr>cb_domain = CUPTI_CB_DOMAIN_DRIVER_API, cb_name = Some ''driver''\<rparr>
           else if s = ''resource'' then \<lparr>cb_domain = CUPTI_CB_DOMAIN_RESOURCE, cb_name = Some ''resource''\<rparr>
           else if s = ''sync'' then \<lparr>cb_domain = CUPTI_CB_DOMAIN_SYNCHRONIZE, cb_name = Some ''sync''\<rparr>
           else if s = ''nvtx'' then \<lparr>cb_domain = CUPTI_CB_DOMAIN_NVTX, cb_name = Some ''nvtx''\<rparr>
           else if s = ''none'' then \<lparr>cb_domain = CUPTI_CB_DOMAIN_INVALID, cb_name = Some ''none''\<rparr>
           else \<lparr>cb_domain = CUPTI_CB_DOMAIN_INVALID, cb_name = None\<rparr>)"
  by (simp add: callback_domains_def)

lemma known_domains_eq:
  "known_domains =
     [(''runtime'', CUPTI_CB_DOMAIN_RUNTIME_API), (''driver'', CUPTI_CB_DOMAIN_DRIVER_API),
      (''resource'', CUPTI_CB_DOMAIN_RESOURCE), (''sync'', CUPTI_CB_DOMAIN_SYNCHRONIZE),
      (''nvtx'', CUPTI_CB_DOMAIN_NVTX)]"
  by (simp add: known_domains_def callback_domains_def)

lemma enable_known:
  assumes "(s, d) \<in> set known_domains"
  shows "enable_callback_domains v (s # ss) st =
     (if cuptiEnableDomain v (enabled_domains st) d \<noteq> CUPTI_SUCCESS
      then (False, print_cupti_error v 0 (cuptiEnableDomain v (enabled_domains st) d)
                     ''cuptiEnableDomain'' st)
      else enable_callback_domains v ss
             (emit (Log 2 [Text (''cupti: enabled '' @ dquote), Text s,
                           Text (dquote @ '' callback domain.'')])
                (st\<lparr>enabled_domains := insert d (enabled_domains st)\<rparr>)))"
proof -
  from assms have "(s = ''runtime'' \<and> d = CUPTI_CB_DOMAIN_RUNTIME_API)
      \<or> (s = ''driver'' \<and> d = CUPTI_CB_DOMAIN_DRIVER_API)
      \<or> (s = ''resource'' \<and> d = CUPTI_CB_DOMAIN_RESOURCE)
      \<or> (s = ''sync'' \<and> d = CUPTI_CB_DOMAIN_SYNCHRONIZE)
      \<or> (s = ''nvtx'' \<and> d = CUPTI_CB_DOMAIN_NVTX)"
    by (simp add: known_domains_eq)
  then show ?thesis
    by (elim disjE conjE) (simp_all add: find_cbinfo_callback_domains Let_def)
qed

lemma enable_none:
  "enable_callback_domains v (''none'' # ss) st = enable_callback_domains v ss st"
  by (simp add: find_cbinfo_callback_domains)

lemma enable_unknown:
  assumes "s \<notin> fst ` set known_domains" and "s \<noteq> ''none''"
  shows "enable_callback_domains v (s # ss) st =
     enable_callback_domains v ss
       (emit (Log 0 [Text (''cupti: warning: Unknown callback domain '' @ dquote),
                     Text s, Text dquote]) st)"
  using assms by (simp add: known_domains_eq find_cbinfo_callback_domains)

lemma enable_cases:
  obtains (known) d where "(s, d) \<in> set known_domains"
  | (none) "s = ''none''"
  | (unknown) "s \<notin> fst ` set known_domains" "s \<noteq> ''none''"
  by force

text \<open>
  Claim C5. When the subscription succeeds, sampling is enabled and the configured list
  of domain names has no \<^verbatim>\<open>"resource"\<close>, the startup logs the addition and walks
  the configured names with \<^verbatim>\<open>"resource"\<close> added at the back. In particular, with
  \<^verbatim>\<open>callback_domains="sync"\<close>, \<^verbatim>\<open>sample_event_id=42\<close> and a vendor library that
  accepts the subscription and the two domains, initialization enables exactly the
  synchronize and the resource domain on top of those enabled before (none at startup).
\<close>

theorem resource_domain_added:
  "(cuptiSubscribe v = CUPTI_SUCCESS \<and> is_enabled (event_sampling st)
      \<and> ''resource'' \<notin> set (to_stringlist '',:'' (cfg_callback_domains config)) \<longrightarrow>
    register_callback_domains v config st =
      enable_callback_domains v
        (to_stringlist '',:'' (cfg_callback_domains config) @ [''resource''])
        (emit (Log 1 [Text (''cupti: Event sampling requires resource callbacks, adding '' @ dquote
               @ ''resource'' @ dquote @ '' callback domain.'')])
           (st\<lparr>subscriber := True\<rparr>)))
   \<and> (cuptiSubscribe v = CUPTI_SUCCESS
        \<and> cuptiEnableDomain v (enabled_domains st) CUPTI_CB_DOMAIN_SYNCHRONIZE = CUPTI_SUCCESS
        \<and> cuptiEnableDomain v (insert CUPTI_CB_DOMAIN_SYNCHRONIZE (enabled_domains st))
            CUPTI_CB_DOMAIN_RESOURCE = CUPTI_SUCCESS
        \<and> cfg_callback_domains config = ''sync'' \<and> cfg_sample_event_id config = 42 \<longrightarrow>
      enabled_domains (cuptiservice_initialize v config st) =
        enabled_domains st \<union> {CUPTI_CB_DOMAIN_SYNCHRONIZE, CUPTI_CB_DOMAIN_RESOURCE})"
proof -
  have a: "cuptiSubscribe v = CUPTI_SUCCESS \<and> is_enabled (event_sampling st)
      \<and> ''resource'' \<notin> set (to_stringlist '',:'' (cfg_callback_domains config)) \<longrightarrow>
    register_callback_domains v config st =
      enable_callback_domains v
        (to_stringlist '',:'' (cfg_callback_domains config) @ [''resource''])
        (emit (Log 1 [Text (''cupti: Event sampling requires resource callbacks, adding '' @ dquote
               @ ''resource'' @ dquote @ '' callback domain.'')])
           (st\<lparr>subscriber := True\<rparr>))"
    by (simp add: register_callback_domains_def Let_def)
  have b: "enabled_domains (cuptiservice_initialize v config st) =
        enabled_domains st \<union> {CUPTI_CB_DOMAIN_SYNCHRONIZE, CUPTI_CB_DOMAIN_RESOURCE}"
    if "cuptiSubscribe v = CUPTI_SUCCESS"
      and "cuptiEnableDomain v (enabled_domains st) CUPTI_CB_DOMAIN_SYNCHRONIZE = CUPTI_SUCCESS"
      and "cuptiEnableDomain v (insert CUPTI_CB_DOMAIN_SYNCHRONIZE (enabled_domains st))
            CUPTI_CB_DOMAIN_RESOURCE = CUPTI_SUCCESS"
      and "cfg_callback_domains config = ''sync''" and "cfg_sample_event_id config = 42"
    using that
    by (simp add: cuptiservice_initialize_def register_callback_domains_def Let_def
          to_stringlist_sync is_enabled_def sampling_setup_def find_cbinfo_callback_domains
          insert_commute)
  show ?thesis
    using a b by blast
qed

theorem resource_domain_added_witness:
  "register_callback_domains example_vendor example_config
       (initial_state\<lparr>event_sampling := sampling_setup 42 (event_sampling initial_state)\<rparr>) =
     enable_callback_domains example_vendor [''sync'', ''resource'']
       (emit (Log 1 [Text (''cupti: Event sampling requires resource callbacks, adding '' @ dquote
               @ ''resource'' @ dquote @ '' callback domain.'')])
          (initial_state\<lparr>event_sampling := sampling_setup 42 (event_sampling initial_state),
                          subscriber := True\<rparr>))
   \<and> enabled_domains (cuptiservice_initialize example_vendor example_config initial_state) =
       {CUPTI_CB_DOMAIN_SYNCHRONIZE, CUPTI_CB_DOMAIN_RESOURCE}"
  using resource_domain_added [of example_vendor
          "initial_state\<lparr>event_sampling := sampling_setup 42 (event_sampling initial_state)\<rparr>"
          example_config]
        resource_domain_added [of example_vendor initial_state example_config]
  by (simp del: enable_callback_domains.simps
        add: to_stringlist_sync is_enabled_def sampling_setup_def)

subsection \<open>The walk over the requested names\<close>

lemma map_of_known: "(s, d) \<in> set known_domains \<Longrightarrow> map_of known_domains s = Some d"
proof -
  assume "(s, d) \<in> set known_domains"
  then have "(s = ''runtime'' \<and> d = CUPTI_CB_DOMAIN_RUNTIME_API)
      \<or> (s = ''driver'' \<and> d = CUPTI_CB_DOMAIN_DRIVER_API)
      \<or> (s = ''resource'' \<and> d = CUPTI_CB_DOMAIN_RESOURCE)
      \<or> (s = ''sync'' \<and> d = CUPTI_CB_DOMAIN_SYNCHRONIZE)
      \<or> (s = ''nvtx'' \<and> d = CUPTI_CB_DOMAIN_NVTX)"
    by (simp add: known_domains_eq)
  then show ?thesis
    by (elim disjE conjE) (simp_all add: known_domains_eq)
qed

lemma map_of_unknown: "s \<notin> fst ` set known_domains \<Longrightarrow> map_of known_domains s = None"
  by (simp add: map_of_eq_None_iff)

lemma none_unknown: "''none'' \<notin> fst ` set known_domains"
  by (simp add: known_domains_eq)

lemma known_unique:
  assumes "(s, d) \<in> set known_domains"
  shows "{d'. (s, d') \<in> set known_domains} = {d}"
proof -
  have "d' = d" if "(s, d') \<in> set known_domains" for d'
    using map_of_known [OF that] map_of_known [OF assms] by simp
  then show ?thesis
    using assms by blast
qed

lemma unknown_empty: "s \<notin> fst ` set known_domains \<Longrightarrow> {d'. (s, d') \<in> set known_domains} = {}"
  by force

lemma logs_at_append [simp]: "logs_at l (xs @ ys) = logs_at l xs @ logs_at l ys"
  by (induction l xs rule: logs_at.induct) simp_all

lemma domains_Cons:
  "{d. \<exists>t\<in>set (s # ss). (t, d) \<in> set known_domains} =
     {d. (s, d) \<in> set known_domains} \<union> {d. \<exists>t\<in>set ss. (t, d) \<in> set known_domains}"
  by auto

lemma walked_step:
  assumes "walked v ss st' R es"
    and "first_refusal v (s # ss) (enabled_domains st) = first_refusal v ss (enabled_domains st')"
    and "trace st' = trace st @ pre" and "connects pre = []"
    and "cupti_info st' = cupti_info st" and "event_sampling st' = event_sampling st"
    and "enabled_domains st' = enabled_domains st \<union> {d. (s, d) \<in> set known_domains}"
    and "logs_at 0 pre =
           map (\<lambda>t. [Text (''cupti: warning: Unknown callback domain '' @ dquote),
                      Text t, Text dquote])
             (filter (\<lambda>t. t \<notin> fst ` set known_domains \<and> t \<noteq> ''none'') [s])"
  shows "walked v (s # ss) st R (pre @ es)"
proof (cases "first_refusal v ss (enabled_domains st')")
  case None
  then show ?thesis
    using assms unfolding walked_def domains_Cons
    by (simp del: first_refusal.simps add: Un_assoc)
next
  case (Some res)
  then show ?thesis
    using assms unfolding walked_def
    by (simp del: first_refusal.simps)
qed

lemma enable_callback_domains_walked:
  "\<exists>es. walked v names st (enable_callback_domains v names st) es"
proof (induction names arbitrary: st)
  case Nil
  show ?case
    by (rule exI [of _ "[]"]) (simp add: walked_def)
next
  case (Cons s ss)
  show ?case
  proof (cases s rule: enable_cases)
    case (known d)
    have m: "map_of known_domains s = Some d"
      by (rule map_of_known [OF known])
    have inside: "s \<in> fst ` set known_domains"
      using known by force
    show ?thesis
    proof (cases "cuptiEnableDomain v (enabled_domains st) d = CUPTI_SUCCESS")
      case True
      let ?e = "Log 2 [Text (''cupti: enabled '' @ dquote), Text s,
                       Text (dquote @ '' callback domain.'')]"
      let ?st' = "emit ?e (st\<lparr>enabled_domains := insert d (enabled_domains st)\<rparr>)"
      obtain es where es: "walked v ss ?st' (enable_callback_domains v ss ?st') es"
        using Cons.IH [of ?st'] by blast
      have eq: "enable_callback_domains v (s # ss) st = enable_callback_domains v ss ?st'"
        using True by (simp del: enable_callback_domains.simps add: enable_known [OF known])
      have "walked v (s # ss) st (enable_callback_domains v ss ?st') ([?e] @ es)"
        by (rule walked_step [OF es])
           (use True m inside in \<open>simp_all add: known_unique [OF known]\<close>)
      then show ?thesis
        unfolding eq by blast
    next
      case False
      have eq: "enable_callback_domains v (s # ss) st =
          (False, print_cupti_error v 0 (cuptiEnableDomain v (enabled_domains st) d)
                    ''cuptiEnableDomain'' st)"
        using False by (simp del: enable_callback_domains.simps add: enable_known [OF known])
      show ?thesis
        unfolding eq
        by (rule exI [of _ "[Log 0 [Text ''cupti: '', Text ''cuptiEnableDomain'',
              Text '': error: '',
              Text (cuptiGetResultString v (cuptiEnableDomain v (enabled_domains st) d))]]"])
           (use False m in \<open>simp add: walked_def print_cupti_error_def\<close>)
    qed
  next
    case none
    obtain es where es: "walked v ss st (enable_callback_domains v ss st) es"
      using Cons.IH [of st] by blast
    have eq: "enable_callback_domains v (s # ss) st = enable_callback_domains v ss st"
      using none by (simp del: enable_callback_domains.simps add: enable_none)
    have "walked v (s # ss) st (enable_callback_domains v ss st) ([] @ es)"
      by (rule walked_step [OF es])
         (use none in \<open>simp_all add: map_of_unknown [OF none_unknown]
            unknown_empty [OF none_unknown]\<close>)
    then show ?thesis
      unfolding eq by auto
  next
    case unknown
    let ?e = "Log 0 [Text (''cupti: warning: Unknown callback domain '' @ dquote),
                     Text s, Text dquote]"
    obtain es where es: "walked v ss (emit ?e st) (enable_callback_domains v ss (emit ?e st)) es"
      using Cons.IH [of "emit ?e st"] by blast
    have eq: "enable_callback_domains v (s # ss) st = enable_callback_domains v ss (emit ?e st)"
      using unknown by (simp del: enable_callback_domains.simps add: enable_unknown)
    have "walked v (s # ss) st (enable_callback_domains v ss (emit ?e st)) ([?e] @ es)"
      by (rule walked_step [OF es])
         (use unknown in \<open>simp_all add: map_of_unknown unknown_empty\<close>)
    then show ?thesis
      unfolding eq by blast
  qed
qed

lemma walked_prefix:
  assumes "walked v names st' R es"
    and "trace st' = trace st @ pre" and "connects pre = []" and "logs_at 0 pre = []"
    and "cupti_info st' = cupti_info st" and "event_sampling st' = event_sampling st"
    and "enabled_domains st' = enabled_domains st"
  shows "walked v names st R (pre @ es)"
  using assms unfolding walked_def
  by (cases "first_refusal v names (enabled_domains st)") simp_all

lemma register_callback_domains_walked:
  assumes "cuptiSubscribe v = CUPTI_SUCCESS"
  shows "\<exists>es. walked v (requested_names config (is_enabled (event_sampling st))) st
                 (register_callback_domains v config st) es"
proof -
  let ?names = "to_stringlist '',:'' (cfg_callback_domains config)"
  let ?st1 = "st\<lparr>subscriber := True\<rparr>"
  show ?thesis
  proof (cases "is_enabled (event_sampling st) \<and> ''resource'' \<notin> set ?names")
    case True
    let ?e = "Log 1 [Text (''cupti: Event sampling requires resource callbacks, adding '' @ dquote
               @ ''resource'' @ dquote @ '' callback domain.'')]"
    have names: "requested_names config (is_enabled (event_sampling st)) = ?names @ [''resource'']"
      using True by (simp add: requested_names_def)
    have reg: "register_callback_domains v config st =
        enable_callback_domains v (?names @ [''resource'']) (emit ?e ?st1)"
      using True assms by (simp add: register_callback_domains_def Let_def)
    obtain es where es: "walked v (?names @ [''resource'']) (emit ?e ?st1)
        (enable_callback_domains v (?names @ [''resource'']) (emit ?e ?st1)) es"
      using enable_callback_domains_walked by blast
    have "walked v (?names @ [''resource'']) st
        (enable_callback_domains v (?names @ [''resource'']) (emit ?e ?st1)) ([?e] @ es)"
      by (rule walked_prefix [OF es]) simp_all
    then show ?thesis
      unfolding names reg by blast
  next
    case False
    have names: "requested_names config (is_enabled (event_sampling st)) = ?names"
      using False by (auto simp: requested_names_def)
    have reg: "register_callback_domains v config st = enable_callback_domains v ?names ?st1"
      using False assms by (auto simp: register_callback_domains_def Let_def)
    obtain es where es: "walked v ?names ?st1 (enable_callback_domains v ?names ?st1) es"
      using enable_callback_domains_walked by blast
    have "walked v ?names st (enable_callback_domains v ?names ?st1) ([] @ es)"
      by (rule walked_prefix [OF es]) simp_all
    then show ?thesis
      unfolding names reg by auto
  qed
qed

text \<open>Initialization up to the call of \<open>register_callback_domains\<close>, and after it.\<close>

lemma cuptiservice_initialize_shape:
  "\<exists>st2 pre.
     trace st2 = trace st @ pre \<and> connects pre = [] \<and> logs_at 0 pre = []
     \<and> cupti_info st2 = cupti_info st \<and> enabled_domains st2 = enabled_domains st
     \<and> is_enabled (event_sampling st2) =
         (0 < cfg_sample_event_id config \<or> is_enabled (event_sampling st))
     \<and> (\<not> fst (register_callback_domains v config st2) \<longrightarrow>
          cuptiservice_initialize v config st = snd (register_callback_domains v config st2))
     \<and> (fst (register_callback_domains v config st2) \<longrightarrow>
          trace (cuptiservice_initialize v config st) =
            trace (snd (register_callback_domains v config st2))
            @ (if is_enabled (event_sampling (snd (register_callback_domains v config st2)))
               then [Connect Hook_snapshot_cb] else [])
            @ [Connect Hook_post_init_cb, Connect Hook_finish_cb,
               Log 1 [Text ''Registered cupti service'']]
          \<and> enabled_domains (cuptiservice_initialize v config st) =
              enabled_domains (snd (register_callback_domains v config st2)))"
proof -
  define st1 where "st1 = st\<lparr>num_cb := 0, num_api_cb := 0, num_resource_cb := 0,
                              num_sync_cb := 0, num_nvtx_cb := 0\<rparr>"
  define st2 where "st2 =
     (if cfg_sample_event_id config > 0
      then emit (Sampling_setup (ucast (cfg_sample_event_id config)))
             (st1\<lparr>event_sampling :=
                    sampling_setup (ucast (cfg_sample_event_id config)) (event_sampling st1)\<rparr>)
      else st1)"
  define pre where "pre =
     (if cfg_sample_event_id config > 0
      then [Sampling_setup (ucast (cfg_sample_event_id config))] else [])"
  have p: "trace st2 = trace st @ pre" "connects pre = []" "logs_at 0 pre = []"
    "cupti_info st2 = cupti_info st" "enabled_domains st2 = enabled_domains st"
    "is_enabled (event_sampling st2) =
       (0 < cfg_sample_event_id config \<or> is_enabled (event_sampling st))"
    by (simp_all add: st2_def st1_def pre_def is_enabled_def sampling_setup_def)
  obtain ok st3 where r: "register_callback_domains v config st2 = (ok, st3)"
    by (cases "register_callback_domains v config st2")
  have i: "cuptiservice_initialize v config st =
      (if \<not> ok then st3
       else emit (Log 1 [Text ''Registered cupti service''])
              (emit (Connect Hook_finish_cb)
                 (emit (Connect Hook_post_init_cb)
                    (if is_enabled (event_sampling st3)
                     then emit (Connect Hook_snapshot_cb)
                            (st3\<lparr>cupti_info := (cupti_info st3)
                                 \<lparr>record_context := cfg_record_context config,
                                  record_symbol := cfg_record_symbol config\<rparr>\<rparr>)
                     else st3\<lparr>cupti_info := (cupti_info st3)
                                 \<lparr>record_context := cfg_record_context config,
                                  record_symbol := cfg_record_symbol config\<rparr>\<rparr>))))"
    unfolding cuptiservice_initialize_def Let_def st1_def [symmetric] st2_def [symmetric]
    by (simp add: r)
  have "(\<not> fst (register_callback_domains v config st2) \<longrightarrow>
          cuptiservice_initialize v config st = snd (register_callback_domains v config st2))
     \<and> (fst (register_callback_domains v config st2) \<longrightarrow>
          trace (cuptiservice_initialize v config st) =
            trace (snd (register_callback_domains v config st2))
            @ (if is_enabled (event_sampling (snd (register_callback_domains v config st2)))
               then [Connect Hook_snapshot_cb] else [])
            @ [Connect Hook_post_init_cb, Connect Hook_finish_cb,
               Log 1 [Text ''Registered cupti service'']]
          \<and> enabled_domains (cuptiservice_initialize v config st) =
              enabled_domains (snd (register_callback_domains v config st2)))"
    unfolding i r by simp
  with p show ?thesis
    by blast
qed

lemma first_refusal_Some:
  "first_refusal v names enabled = Some res \<Longrightarrow>
     res \<noteq> CUPTI_SUCCESS
     \<and> (\<exists>t d S. t \<in> set names \<and> (t, d) \<in> set known_domains \<and> res = cuptiEnableDomain v S d)"
proof (induction names arbitrary: enabled)
  case Nil
  then show ?case by simp
next
  case (Cons s ss)
  show ?case
  proof (cases "map_of known_domains s")
    case None
    then have "first_refusal v ss enabled = Some res"
      using Cons.prems by simp
    from Cons.IH [OF this] show ?thesis
      by auto
  next
    case (Some d)
    then have k: "(s, d) \<in> set known_domains"
      by (rule map_of_SomeD)
    show ?thesis
    proof (cases "cuptiEnableDomain v enabled d = CUPTI_SUCCESS")
      case True
      then have "first_refusal v ss (insert d enabled) = Some res"
        using Cons.prems Some by simp
      from Cons.IH [OF this] show ?thesis
        by auto
    next
      case False
      then have "res = cuptiEnableDomain v enabled d"
        using Cons.prems Some by simp
      then show ?thesis
        using False k by auto
    qed
  qed
qed

lemma first_refusal_always:
  assumes "(s, d) \<in> set known_domains"
    and "\<forall>enabled. cuptiEnableDomain v enabled d \<noteq> CUPTI_SUCCESS"
  shows "s \<in> set names \<Longrightarrow> first_refusal v names enabled \<noteq> None"
proof (induction names arbitrary: enabled)
  case Nil
  then show ?case by simp
next
  case (Cons t ts)
  show ?case
  proof (cases "t = s")
    case True
    then show ?thesis
      using assms by (simp add: map_of_known [OF assms(1)])
  next
    case False
    then have "s \<in> set ts"
      using Cons.prems by simp
    then have "first_refusal v ts E \<noteq> None" for E
      by (rule Cons.IH)
    then show ?thesis
      by (cases "map_of known_domains t") simp_all
  qed
qed

lemma initialize_subscribe_failed:
  assumes "cuptiSubscribe v \<noteq> CUPTI_SUCCESS"
  shows "connects (new_events st (cuptiservice_initialize v config st)) = []
      \<and> cupti_info (cuptiservice_initialize v config st) = cupti_info st
      \<and> trace (cuptiservice_initialize v config st) \<noteq> []
      \<and> last (trace (cuptiservice_initialize v config st)) =
          Log 0 [Text ''cupti: '', Text ''cuptiSubscribe'', Text '': error: '',
                 Text (cuptiGetResultString v (cuptiSubscribe v))]"
proof -
  obtain st2 pre where p: "trace st2 = trace st @ pre" "connects pre = []"
    "cupti_info st2 = cupti_info st"
    "\<not> fst (register_callback_domains v config st2) \<longrightarrow>
       cuptiservice_initialize v config st = snd (register_callback_domains v config st2)"
    using cuptiservice_initialize_shape [of st config v] by blast
  have r: "register_callback_domains v config st2 =
      (False, print_cupti_error v 0 (cuptiSubscribe v) ''cuptiSubscribe'' st2)"
    using assms by (simp add: register_callback_domains_def)
  have "cuptiservice_initialize v config st =
      print_cupti_error v 0 (cuptiSubscribe v) ''cuptiSubscribe'' st2"
    using p(4) r by simp
  then show ?thesis
    using p(1,2,3) by (simp add: new_events_def)
qed

lemma initialize_refused:
  assumes "cuptiSubscribe v = CUPTI_SUCCESS"
    and "first_refusal v
           (requested_names config
              (0 < cfg_sample_event_id config \<or> is_enabled (event_sampling st)))
           (enabled_domains st) = Some res"
  shows "res \<noteq> CUPTI_SUCCESS
      \<and> connects (new_events st (cuptiservice_initialize v config st)) = []
      \<and> cupti_info (cuptiservice_initialize v config st) = cupti_info st
      \<and> trace (cuptiservice_initialize v config st) \<noteq> []
      \<and> last (trace (cuptiservice_initialize v config st)) =
          Log 0 [Text ''cupti: '', Text ''cuptiEnableDomain'', Text '': error: '',
                 Text (cuptiGetResultString v res)]"
proof -
  obtain st2 pre where p: "trace st2 = trace st @ pre" "connects pre = []"
    "cupti_info st2 = cupti_info st" "enabled_domains st2 = enabled_domains st"
    "is_enabled (event_sampling st2) =
       (0 < cfg_sample_event_id config \<or> is_enabled (event_sampling st))"
    "\<not> fst (register_callback_domains v config st2) \<longrightarrow>
       cuptiservice_initialize v config st = snd (register_callback_domains v config st2)"
    using cuptiservice_initialize_shape [of st config v] by blast
  obtain es where "walked v (requested_names config (is_enabled (event_sampling st2))) st2
      (register_callback_domains v config st2) es"
    using register_callback_domains_walked [OF assms(1)] by blast
  then have w: "trace (snd (register_callback_domains v config st2)) = trace st2 @ es"
    "connects es = []"
    "cupti_info (snd (register_callback_domains v config st2)) = cupti_info st2"
    "\<not> fst (register_callback_domains v config st2)" "res \<noteq> CUPTI_SUCCESS" "es \<noteq> []"
    "last es = Log 0 [Text ''cupti: '', Text ''cuptiEnableDomain'', Text '': error: '',
                      Text (cuptiGetResultString v res)]"
    using assms(2) p(4,5) by (simp_all add: walked_def)
  have "cuptiservice_initialize v config st = snd (register_callback_domains v config st2)"
    using p(6) w(4) by simp
  then show ?thesis
    using p(1,2,3) w by (simp add: new_events_def)
qed

lemma initialize_completes:
  assumes "cuptiSubscribe v = CUPTI_SUCCESS"
    and "first_refusal v
           (requested_names config
              (0 < cfg_sample_event_id config \<or> is_enabled (event_sampling st)))
           (enabled_domains st) = None"
  shows "enabled_domains (cuptiservice_initialize v config st) =
           enabled_domains st
           \<union> {d. \<exists>t\<in>set (requested_names config
                             (0 < cfg_sample_event_id config \<or> is_enabled (event_sampling st))).
                   (t, d) \<in> set known_domains}
      \<and> logs_at 0 (new_events st (cuptiservice_initialize v config st)) =
          map (\<lambda>t. [Text (''cupti: warning: Unknown callback domain '' @ dquote),
                     Text t, Text dquote])
            (filter (\<lambda>t. t \<notin> fst ` set known_domains \<and> t \<noteq> ''none'')
               (requested_names config
                  (0 < cfg_sample_event_id config \<or> is_enabled (event_sampling st))))
      \<and> connects (new_events st (cuptiservice_initialize v config st)) =
          (if 0 < cfg_sample_event_id config \<or> is_enabled (event_sampling st)
           then [Hook_snapshot_cb] else [])
          @ [Hook_post_init_cb, Hook_finish_cb]"
proof -
  obtain st2 pre where p: "trace st2 = trace st @ pre" "connects pre = []" "logs_at 0 pre = []"
    "enabled_domains st2 = enabled_domains st"
    "is_enabled (event_sampling st2) =
       (0 < cfg_sample_event_id config \<or> is_enabled (event_sampling st))"
    "fst (register_callback_domains v config st2) \<longrightarrow>
          trace (cuptiservice_initialize v config st) =
            trace (snd (register_callback_domains v config st2))
            @ (if is_enabled (event_sampling (snd (register_callback_domains v config st2)))
               then [Connect Hook_snapshot_cb] else [])
            @ [Connect Hook_post_init_cb, Connect Hook_finish_cb,
               Log 1 [Text ''Registered cupti service'']]
          \<and> enabled_domains (cuptiservice_initialize v config st) =
              enabled_domains (snd (register_callback_domains v config st2))"
    using cuptiservice_initialize_shape [of st config v] by blast
  obtain es where "walked v (requested_names config (is_enabled (event_sampling st2))) st2
      (register_callback_domains v config st2) es"
    using register_callback_domains_walked [OF assms(1)] by blast
  then have w: "trace (snd (register_callback_domains v config st2)) = trace st2 @ es"
    "connects es = []"
    "event_sampling (snd (register_callback_domains v config st2)) = event_sampling st2"
    "fst (register_callback_domains v config st2)"
    "enabled_domains (snd (register_callback_domains v config st2)) =
       enabled_domains st
       \<union> {d. \<exists>t\<in>set (requested_names config
                         (0 < cfg_sample_event_id config \<or> is_enabled (event_sampling st))).
               (t, d) \<in> set known_domains}"
    "logs_at 0 es =
       map (\<lambda>t. [Text (''cupti: warning: Unknown callback domain '' @ dquote),
                  Text t, Text dquote])
         (filter (\<lambda>t. t \<notin> fst ` set known_domains \<and> t \<noteq> ''none'')
            (requested_names config
               (0 < cfg_sample_event_id config \<or> is_enabled (event_sampling st))))"
    using assms(2) p(4,5) by (simp_all add: walked_def)
  have t: "trace (cuptiservice_initialize v config st) =
      trace st @ pre @ es
      @ (if 0 < cfg_sample_event_id config \<or> is_enabled (event_sampling st)
         then [Connect Hook_snapshot_cb] else [])
      @ [Connect Hook_post_init_cb, Connect Hook_finish_cb,
         Log 1 [Text ''Registered cupti service'']]"
    and e: "enabled_domains (cuptiservice_initialize v config st) =
      enabled_domains (snd (register_callback_domains v config st2))"
    using p(6) w(4) by (simp_all add: w(1,3) p(1,5))
  show ?thesis
    unfolding e w(5) using t p(2,3) w(2,6) by (simp add: new_events_def)
qed

lemma enable_callback_domains_known:
  "\<forall>(s, d) \<in> set known_domains.
        (cuptiEnableDomain v (enabled_domains st) d = CUPTI_SUCCESS \<longrightarrow>
           enable_callback_domains v (s # ss) st =
             enable_callback_domains v ss
               (emit (Log 2 [Text (''cupti: enabled '' @ dquote), Text s,
                             Text (dquote @ '' callback domain.'')])
                  (st\<lparr>enabled_domains := insert d (enabled_domains st)\<rparr>)))
        \<and> (cuptiEnableDomain v (enabled_domains st) d \<noteq> CUPTI_SUCCESS \<longrightarrow>
           enable_callback_domains v (s # ss) st =
             (False, print_cupti_error v 0 (cuptiEnableDomain v (enabled_domains st) d)
                       ''cuptiEnableDomain'' st))"
proof
  fix p
  assume p: "p \<in> set known_domains"
  obtain s d where sd: "p = (s, d)"
    by (cases p)
  have "(s, d) \<in> set known_domains"
    using p sd by simp
  then have e: "enable_callback_domains v (s # ss) st =
     (if cuptiEnableDomain v (enabled_domains st) d \<noteq> CUPTI_SUCCESS
      then (False, print_cupti_error v 0 (cuptiEnableDomain v (enabled_domains st) d)
                     ''cuptiEnableDomain'' st)
      else enable_callback_domains v ss
             (emit (Log 2 [Text (''cupti: enabled '' @ dquote), Text s,
                           Text (dquote @ '' callback domain.'')])
                (st\<lparr>enabled_domains := insert d (enabled_domains st)\<rparr>)))"
    by (rule enable_known)
  show "case p of (s, d) \<Rightarrow>
      (cuptiEnableDomain v (enabled_domains st) d = CUPTI_SUCCESS \<longrightarrow>
         enable_callback_domains v (s # ss) st =
           enable_callback_domains v ss
             (emit (Log 2 [Text (''cupti: enabled '' @ dquote), Text s,
                           Text (dquote @ '' callback domain.'')])
                (st\<lparr>enabled_domains := insert d (enabled_domains st)\<rparr>)))
      \<and> (cuptiEnableDomain v (enabled_domains st) d \<noteq> CUPTI_SUCCESS \<longrightarrow>
         enable_callback_domains v (s # ss) st =
           (False, print_cupti_error v 0 (cuptiEnableDomain v (enabled_domains st) d)
                     ''cuptiEnableDomain'' st))"
    by (simp only: sd prod.case e) simp
qed

lemma register_callback_domains_names:
  assumes "cuptiSubscribe v = CUPTI_SUCCESS"
  shows "register_callback_domains v config st =
     enable_callback_domains v (requested_names config (is_enabled (event_sampling st)))
       (if is_enabled (event_sampling st)
           \<and> ''resource'' \<notin> set (to_stringlist '',:'' (cfg_callback_domains config))
        then emit (Log 1 [Text (''cupti: Event sampling requires resource callbacks, adding ''
                                @ dquote @ ''resource'' @ dquote @ '' callback domain.'')])
               (st\<lparr>subscriber := True\<rparr>)
        else st\<lparr>subscriber := True\<rparr>)"
proof (cases "is_enabled (event_sampling st)
           \<and> ''resource'' \<notin> set (to_stringlist '',:'' (cfg_callback_domains config))")
  case True
  then show ?thesis
    using assms by (simp add: register_callback_domains_def requested_names_def Let_def)
next
  case False
  then show ?thesis
    using assms by (auto simp: register_callback_domains_def requested_names_def Let_def)
qed

text \<open>
  Claim C6. The names with a vendor domain are \<^verbatim>\<open>runtime\<close>, \<^verbatim>\<open>driver\<close>,
  \<^verbatim>\<open>resource\<close>, \<^verbatim>\<open>sync\<close> and \<^verbatim>\<open>nvtx\<close>. For each of them the loop asks the
  vendor library for exactly its domain: when the call succeeds that domain is added to
  the enabled ones and the loop goes on with the remaining names, when it fails the loop
  returns \<^verbatim>\<open>false\<close> after logging the error. The name \<^verbatim>\<open>none\<close> is accepted:
  nothing is enabled or logged and the loop goes on. Any other name logs a warning at
  level 0, enables nothing, and the loop goes on with the remaining names. Once the
  subscription is accepted, \<^verbatim>\<open>register_callback_domains\<close> is this loop on the requested
  names. When the vendor library refuses none of the calls, \<^verbatim>\<open>cuptiservice_initialize\<close>
  has enabled the domains of all the requested names and no other, has logged at level 0
  one warning for each unknown name, in order, and nothing else, and has gone on to
  connect the lifecycle callbacks.
\<close>

theorem domain_token_resolution:
  "known_domains =
     [(''runtime'', CUPTI_CB_DOMAIN_RUNTIME_API), (''driver'', CUPTI_CB_DOMAIN_DRIVER_API),
      (''resource'', CUPTI_CB_DOMAIN_RESOURCE), (''sync'', CUPTI_CB_DOMAIN_SYNCHRONIZE),
      (''nvtx'', CUPTI_CB_DOMAIN_NVTX)]
   \<and> (\<forall>(s, d) \<in> set known_domains.
        (cuptiEnableDomain v (enabled_domains st) d = CUPTI_SUCCESS \<longrightarrow>
           enable_callback_domains v (s # ss) st =
             enable_callback_domains v ss
               (emit (Log 2 [Text (''cupti: enabled '' @ dquote), Text s,
                             Text (dquote @ '' callback domain.'')])
                  (st\<lparr>enabled_domains := insert d (enabled_domains st)\<rparr>)))
        \<and> (cuptiEnableDomain v (enabled_domains st) d \<noteq> CUPTI_SUCCESS \<longrightarrow>
           enable_callback_domains v (s # ss) st =
             (False, print_cupti_error v 0 (cuptiEnableDomain v (enabled_domains st) d)
                       ''cuptiEnableDomain'' st)))
   \<and> enable_callback_domains v (''none'' # ss) st = enable_callback_domains v ss st
   \<and> (t \<notin> fst ` set known_domains \<and> t \<noteq> ''none'' \<longrightarrow>
        enable_callback_domains v (t # ss) st =
          enable_callback_domains v ss
            (emit (Log 0 [Text (''cupti: warning: Unknown callback domain '' @ dquote),
                          Text t, Text dquote]) st))
   \<and> (cuptiSubscribe v = CUPTI_SUCCESS \<longrightarrow>
        register_callback_domains v config st =
          enable_callback_domains v (requested_names config (is_enabled (event_sampling st)))
            (if is_enabled (event_sampling st)
                \<and> ''resource'' \<notin> set (to_stringlist '',:'' (cfg_callback_domains config))
             then emit (Log 1 [Text (''cupti: Event sampling requires resource callbacks, adding ''
                                     @ dquote @ ''resource'' @ dquote @ '' callback domain.'')])
                    (st\<lparr>subscriber := True\<rparr>)
             else st\<lparr>subscriber := True\<rparr>))
   \<and> (cuptiSubscribe v = CUPTI_SUCCESS
        \<and> first_refusal v
            (requested_names config
               (0 < cfg_sample_event_id config \<or> is_enabled (event_sampling st)))
            (enabled_domains st) = None \<longrightarrow>
        enabled_domains (cuptiservice_initialize v config st) =
           enabled_domains st
           \<union> {d. \<exists>t\<in>set (requested_names config
                             (0 < cfg_sample_event_id config \<or> is_enabled (event_sampling st))).
                   (t, d) \<in> set known_domains}
        \<and> logs_at 0 (new_events st (cuptiservice_initialize v config st)) =
            map (\<lambda>t. [Text (''cupti: warning: Unknown callback domain '' @ dquote),
                       Text t, Text dquote])
              (filter (\<lambda>t. t \<notin> fst ` set known_domains \<and> t \<noteq> ''none'')
                 (requested_names config
                    (0 < cfg_sample_event_id config \<or> is_enabled (event_sampling st))))
        \<and> connects (new_events st (cuptiservice_initialize v config st)) =
            (if 0 < cfg_sample_event_id config \<or> is_enabled (event_sampling st)
             then [Hook_snapshot_cb] else [])
            @ [Hook_post_init_cb, Hook_finish_cb])"
proof (intro conjI)
  show "known_domains =
     [(''runtime'', CUPTI_CB_DOMAIN_RUNTIME_API), (''driver'', CUPTI_CB_DOMAIN_DRIVER_API),
      (''resource'', CUPTI_CB_DOMAIN_RESOURCE), (''sync'', CUPTI_CB_DOMAIN_SYNCHRONIZE),
      (''nvtx'', CUPTI_CB_DOMAIN_NVTX)]"
    by (rule known_domains_eq)
  show "\<forall>(s, d) \<in> set known_domains.
        (cuptiEnableDomain v (enabled_domains st) d = CUPTI_SUCCESS \<longrightarrow>
           enable_callback_domains v (s # ss) st =
             enable_callback_domains v ss
               (emit (Log 2 [Text (''cupti: enabled '' @ dquote), Text s,
                             Text (dquote @ '' callback domain.'')])
                  (st\<lparr>enabled_domains := insert d (enabled_domains st)\<rparr>)))
        \<and> (cuptiEnableDomain v (enabled_domains st) d \<noteq> CUPTI_SUCCESS \<longrightarrow>
           enable_callback_domains v (s # ss) st =
             (False, print_cupti_error v 0 (cuptiEnableDomain v (enabled_domains st) d)
                       ''cuptiEnableDomain'' st))"
    by (rule enable_callback_domains_known)
  show "enable_callback_domains v (''none'' # ss) st = enable_callback_domains v ss st"
    by (rule enable_none)
  show "t \<notin> fst ` set known_domains \<and> t \<noteq> ''none'' \<longrightarrow>
        enable_callback_domains v (t # ss) st =
          enable_callback_domains v ss
            (emit (Log 0 [Text (''cupti: warning: Unknown callback domain '' @ dquote),
                          Text t, Text dquote]) st)"
    by (intro impI, elim conjE) (rule enable_unknown)
  show "cuptiSubscribe v = CUPTI_SUCCESS \<longrightarrow>
        register_callback_domains v config st =
          enable_callback_domains v (requested_names config (is_enabled (event_sampling st)))
            (if is_enabled (event_sampling st)
                \<and> ''resource'' \<notin> set (to_stringlist '',:'' (cfg_callback_domains config))
             then emit (Log 1 [Text (''cupti: Event sampling requires resource callbacks, adding ''
                                     @ dquote @ ''resource'' @ dquote @ '' callback domain.'')])
                    (st\<lparr>subscriber := True\<rparr>)
             else st\<lparr>subscriber := True\<rparr>)"
    by (intro impI) (rule register_callback_domains_names)
  show "cuptiSubscribe v = CUPTI_SUCCESS
        \<and> first_refusal v
            (requested_names config
               (0 < cfg_sample_event_id config \<or> is_enabled (event_sampling st)))
            (enabled_domains st) = None \<longrightarrow>
        enabled_domains (cuptiservice_initialize v config st) =
           enabled_domains st
           \<union> {d. \<exists>t\<in>set (requested_names config
                             (0 < cfg_sample_event_id config \<or> is_enabled (event_sampling st))).
                   (t, d) \<in> set known_domains}
        \<and> logs_at 0 (new_events st (cuptiservice_initialize v config st)) =
            map (\<lambda>t. [Text (''cupti: warning: Unknown callback domain '' @ dquote),
                       Text t, Text dquote])
              (filter (\<lambda>t. t \<notin> fst ` set known_domains \<and> t \<noteq> ''none'')
                 (requested_names config
                    (0 < cfg_sample_event_id config \<or> is_enabled (event_sampling st))))
        \<and> connects (new_events st (cuptiservice_initialize v config st)) =
            (if 0 < cfg_sample_event_id config \<or> is_enabled (event_sampling st)
             then [Hook_snapshot_cb] else [])
            @ [Hook_post_init_cb, Hook_finish_cb]"
    by (intro impI, elim conjE) (rule initialize_completes)
qed

theorem domain_token_resolution_witness:
  "enable_callback_domains example_vendor [''nvtx''] initial_state =
     (True, emit (Log 2 [Text (''cupti: enabled '' @ dquote), Text ''nvtx'',
                         Text (dquote @ '' callback domain.'')])
              (initial_state\<lparr>enabled_domains := {CUPTI_CB_DOMAIN_NVTX}\<rparr>))
   \<and> enable_callback_domains
       (example_vendor\<lparr>cuptiEnableDomain := (\<lambda>enabled d. CUPTI_ERROR 1)\<rparr>) [''nvtx'']
       initial_state =
     (False, emit (Log 0 [Text ''cupti: '', Text ''cuptiEnableDomain'', Text '': error: '',
                          Text ''CUPTI_ERROR_INVALID_PARAMETER'']) initial_state)
   \<and> enable_callback_domains example_vendor [''none''] initial_state = (True, initial_state)
   \<and> enable_callback_domains example_vendor [''gpu''] initial_state =
     (True, emit (Log 0 [Text (''cupti: warning: Unknown callback domain '' @ dquote),
                         Text ''gpu'', Text dquote]) initial_state)
   \<and> register_callback_domains example_vendor
       \<lparr>cfg_callback_domains = ''nvtx:gpu,none:driver'', cfg_record_symbol = True,
        cfg_record_context = True, cfg_sample_events = [], cfg_sample_event_id = 0\<rparr>
       initial_state =
     enable_callback_domains example_vendor [''nvtx'', ''gpu'', ''none'', ''driver'']
       (initial_state\<lparr>subscriber := True\<rparr>)
   \<and> enabled_domains
       (cuptiservice_initialize example_vendor
          \<lparr>cfg_callback_domains = ''nvtx:gpu,none:driver'', cfg_record_symbol = True,
           cfg_record_context = True, cfg_sample_events = [], cfg_sample_event_id = 0\<rparr>
          initial_state) =
       {CUPTI_CB_DOMAIN_NVTX, CUPTI_CB_DOMAIN_DRIVER_API}
   \<and> logs_at 0
       (new_events initial_state
          (cuptiservice_initialize example_vendor
             \<lparr>cfg_callback_domains = ''nvtx:gpu,none:driver'', cfg_record_symbol = True,
              cfg_record_context = True, cfg_sample_events = [], cfg_sample_event_id = 0\<rparr>
             initial_state)) =
       [[Text (''cupti: warning: Unknown callback domain '' @ dquote), Text ''gpu'', Text dquote]]
   \<and> connects
       (new_events initial_state
          (cuptiservice_initialize example_vendor
             \<lparr>cfg_callback_domains = ''nvtx:gpu,none:driver'', cfg_record_symbol = True,
              cfg_record_context = True, cfg_sample_events = [], cfg_sample_event_id = 0\<rparr>
             initial_state)) =
       [Hook_post_init_cb, Hook_finish_cb]"
proof -
  let ?cfg = "\<lparr>cfg_callback_domains = ''nvtx:gpu,none:driver'', cfg_record_symbol = True,
        cfg_record_context = True, cfg_sample_events = [], cfg_sample_event_id = 0\<rparr>"
  note ok = domain_token_resolution [of example_vendor initial_state "[]" "''gpu''" ?cfg]
  note bad = domain_token_resolution
      [of "example_vendor\<lparr>cuptiEnableDomain := (\<lambda>enabled d. CUPTI_ERROR 1)\<rparr>"
          initial_state "[]" "''gpu''" ?cfg]
  have k: "(''nvtx'', CUPTI_CB_DOMAIN_NVTX) \<in> set known_domains"
    by (simp add: known_domains_eq)
  have u: "''gpu'' \<notin> fst ` set known_domains \<and> ''gpu'' \<noteq> ''none''"
    by (simp add: known_domains_eq)
  have names: "requested_names ?cfg False = [''nvtx'', ''gpu'', ''none'', ''driver'']"
    by (simp add: requested_names_def to_stringlist_def)
  have sampling: "(0 < cfg_sample_event_id ?cfg \<or> is_enabled (event_sampling initial_state)) = False"
    "is_enabled (event_sampling initial_state) = False"
    by (simp_all add: is_enabled_def)
  have m: "map_of known_domains ''nvtx'' = Some CUPTI_CB_DOMAIN_NVTX"
    "map_of known_domains ''gpu'' = None" "map_of known_domains ''none'' = None"
    "map_of known_domains ''driver'' = Some CUPTI_CB_DOMAIN_DRIVER_API"
    by (simp_all add: known_domains_eq)
  have fr: "first_refusal example_vendor [''nvtx'', ''gpu'', ''none'', ''driver''] {} = None"
    by (simp add: m)
  have kd: "(''driver'', CUPTI_CB_DOMAIN_DRIVER_API) \<in> set known_domains"
    by (simp add: known_domains_eq)
  have "{d. \<exists>t\<in>set [''nvtx'', ''gpu'', ''none'', ''driver'']. (t, d) \<in> set known_domains} =
      {d. (''nvtx'', d) \<in> set known_domains} \<union> ({d. (''gpu'', d) \<in> set known_domains}
      \<union> ({d. (''none'', d) \<in> set known_domains} \<union> ({d. (''driver'', d) \<in> set known_domains}
      \<union> {d. \<exists>t\<in>set []. (t, d) \<in> set known_domains})))"
    by (simp only: domains_Cons)
  then have doms:
    "{d. \<exists>t\<in>set [''nvtx'', ''gpu'', ''none'', ''driver'']. (t, d) \<in> set known_domains} =
      {CUPTI_CB_DOMAIN_NVTX, CUPTI_CB_DOMAIN_DRIVER_API}"
    by (simp only: known_unique [OF k] known_unique [OF kd] unknown_empty [OF u [THEN conjunct1]]
          unknown_empty [OF none_unknown]) (simp add: insert_commute)
  have warn: "filter (\<lambda>t. t \<notin> fst ` set known_domains \<and> t \<noteq> ''none'')
      [''nvtx'', ''gpu'', ''none'', ''driver''] = [''gpu'']"
    by (simp add: known_domains_eq)
  have 1: "enable_callback_domains example_vendor [''nvtx''] initial_state =
     (True, emit (Log 2 [Text (''cupti: enabled '' @ dquote), Text ''nvtx'',
                         Text (dquote @ '' callback domain.'')])
              (initial_state\<lparr>enabled_domains := {CUPTI_CB_DOMAIN_NVTX}\<rparr>))"
    using bspec [OF ok [THEN conjunct2, THEN conjunct1] k]
    by (simp del: enable_callback_domains.simps(2))
  have 2: "enable_callback_domains
       (example_vendor\<lparr>cuptiEnableDomain := (\<lambda>enabled d. CUPTI_ERROR 1)\<rparr>) [''nvtx'']
       initial_state =
     (False, emit (Log 0 [Text ''cupti: '', Text ''cuptiEnableDomain'', Text '': error: '',
                          Text ''CUPTI_ERROR_INVALID_PARAMETER'']) initial_state)"
    using bspec [OF bad [THEN conjunct2, THEN conjunct1] k]
    by (simp del: enable_callback_domains.simps(2) add: print_cupti_error_def)
  have 3: "enable_callback_domains example_vendor [''none''] initial_state = (True, initial_state)"
    using ok [THEN conjunct2, THEN conjunct2, THEN conjunct1]
    by (simp del: enable_callback_domains.simps(2))
  have 4: "enable_callback_domains example_vendor [''gpu''] initial_state =
     (True, emit (Log 0 [Text (''cupti: warning: Unknown callback domain '' @ dquote),
                         Text ''gpu'', Text dquote]) initial_state)"
    using ok [THEN conjunct2, THEN conjunct2, THEN conjunct2, THEN conjunct1, THEN mp, OF u]
    by (simp del: enable_callback_domains.simps(2))
  have sub: "cuptiSubscribe example_vendor = CUPTI_SUCCESS"
    by simp
  have 5: "register_callback_domains example_vendor ?cfg initial_state =
     enable_callback_domains example_vendor [''nvtx'', ''gpu'', ''none'', ''driver'']
       (initial_state\<lparr>subscriber := True\<rparr>)"
    using ok [THEN conjunct2, THEN conjunct2, THEN conjunct2, THEN conjunct2, THEN conjunct1,
              THEN mp, OF sub]
    by (simp del: enable_callback_domains.simps add: is_enabled_def names)
  have h6: "cuptiSubscribe example_vendor = CUPTI_SUCCESS
        \<and> first_refusal example_vendor
            (requested_names ?cfg
               (0 < cfg_sample_event_id ?cfg \<or> is_enabled (event_sampling initial_state)))
            (enabled_domains initial_state) = None"
    using sub fr by (simp del: first_refusal.simps add: is_enabled_def names)
  note r = ok [THEN conjunct2, THEN conjunct2, THEN conjunct2, THEN conjunct2, THEN conjunct2,
               THEN mp, OF h6, unfolded sampling(1) names doms warn]
  have 6: "enabled_domains (cuptiservice_initialize example_vendor ?cfg initial_state) =
       {CUPTI_CB_DOMAIN_NVTX, CUPTI_CB_DOMAIN_DRIVER_API}"
    using r [THEN conjunct1] by simp
  have 7: "logs_at 0
       (new_events initial_state (cuptiservice_initialize example_vendor ?cfg initial_state)) =
       [[Text (''cupti: warning: Unknown callback domain '' @ dquote), Text ''gpu'', Text dquote]]"
    using r [THEN conjunct2, THEN conjunct1] by simp
  have 8: "connects
       (new_events initial_state (cuptiservice_initialize example_vendor ?cfg initial_state)) =
       [Hook_post_init_cb, Hook_finish_cb]"
    using r [THEN conjunct2, THEN conjunct2] by simp
  show ?thesis
    by (intro conjI) (rule 1 2 3 4 5 6 7 8)+
qed

subsection \<open>Failures at startup\<close>

text \<open>
  Claim C8. When \<^verbatim>\<open>cuptiSubscribe\<close> fails, the last thing \<^verbatim>\<open>cuptiservice_initialize\<close>
  does is log at level 0 the decoded result of that call; when the subscription is accepted
  and the walk over the requested names meets a call of \<^verbatim>\<open>cuptiEnableDomain\<close> that the
  vendor library refuses, given the domains enabled before it, the last thing it does is
  log at level 0 the decoded result of that very call. In both cases no lifecycle callback
  is connected and the attributes and flags of the service are left as they were. The
  first refused call is the call for the first requested name with a vendor domain whose
  call fails on the domains enabled so far; unknown names and accepted calls are passed
  over; a requested domain that the vendor library refuses whatever is enabled makes
  the walk end with a refusal.
\<close>

theorem initialization_aborts:
  "(cuptiSubscribe v \<noteq> CUPTI_SUCCESS \<longrightarrow>
      connects (new_events st (cuptiservice_initialize v config st)) = []
      \<and> cupti_info (cuptiservice_initialize v config st) = cupti_info st
      \<and> trace (cuptiservice_initialize v config st) \<noteq> []
      \<and> last (trace (cuptiservice_initialize v config st)) =
          Log 0 [Text ''cupti: '', Text ''cuptiSubscribe'', Text '': error: '',
                 Text (cuptiGetResultString v (cuptiSubscribe v))])
   \<and> (cuptiSubscribe v = CUPTI_SUCCESS
        \<and> first_refusal v
            (requested_names config
               (0 < cfg_sample_event_id config \<or> is_enabled (event_sampling st)))
            (enabled_domains st) = Some res \<longrightarrow>
      res \<noteq> CUPTI_SUCCESS
      \<and> connects (new_events st (cuptiservice_initialize v config st)) = []
      \<and> cupti_info (cuptiservice_initialize v config st) = cupti_info st
      \<and> trace (cuptiservice_initialize v config st) \<noteq> []
      \<and> last (trace (cuptiservice_initialize v config st)) =
          Log 0 [Text ''cupti: '', Text ''cuptiEnableDomain'', Text '': error: '',
                 Text (cuptiGetResultString v res)])
   \<and> (first_refusal v names enabled = Some res' \<longrightarrow>
        res' \<noteq> CUPTI_SUCCESS
        \<and> (\<exists>t d S. t \<in> set names \<and> (t, d) \<in> set known_domains
               \<and> res' = cuptiEnableDomain v S d))
   \<and> ((s, d) \<in> set known_domains \<and> cuptiEnableDomain v enabled d \<noteq> CUPTI_SUCCESS \<longrightarrow>
        first_refusal v (s # ss) enabled = Some (cuptiEnableDomain v enabled d))
   \<and> ((s, d) \<in> set known_domains \<and> cuptiEnableDomain v enabled d = CUPTI_SUCCESS \<longrightarrow>
        first_refusal v (s # ss) enabled = first_refusal v ss (insert d enabled))
   \<and> (s' \<notin> fst ` set known_domains \<longrightarrow>
        first_refusal v (s' # ss) enabled = first_refusal v ss enabled)
   \<and> ((s, d) \<in> set known_domains \<and> s \<in> set names
        \<and> (\<forall>S. cuptiEnableDomain v S d \<noteq> CUPTI_SUCCESS) \<longrightarrow>
        first_refusal v names enabled \<noteq> None)"
proof (intro conjI)
  show "cuptiSubscribe v \<noteq> CUPTI_SUCCESS \<longrightarrow>
      connects (new_events st (cuptiservice_initialize v config st)) = []
      \<and> cupti_info (cuptiservice_initialize v config st) = cupti_info st
      \<and> trace (cuptiservice_initialize v config st) \<noteq> []
      \<and> last (trace (cuptiservice_initialize v config st)) =
          Log 0 [Text ''cupti: '', Text ''cuptiSubscribe'', Text '': error: '',
                 Text (cuptiGetResultString v (cuptiSubscribe v))]"
    by (intro impI) (rule initialize_subscribe_failed)
  show "cuptiSubscribe v = CUPTI_SUCCESS
        \<and> first_refusal v
            (requested_names config
               (0 < cfg_sample_event_id config \<or> is_enabled (event_sampling st)))
            (enabled_domains st) = Some res \<longrightarrow>
      res \<noteq> CUPTI_SUCCESS
      \<and> connects (new_events st (cuptiservice_initialize v config st)) = []
      \<and> cupti_info (cuptiservice_initialize v config st) = cupti_info st
      \<and> trace (cuptiservice_initialize v config st) \<noteq> []
      \<and> last (trace (cuptiservice_initialize v config st)) =
          Log 0 [Text ''cupti: '', Text ''cuptiEnableDomain'', Text '': error: '',
                 Text (cuptiGetResultString v res)]"
    by (intro impI, elim conjE) (rule initialize_refused)
  show "first_refusal v names enabled = Some res' \<longrightarrow>
        res' \<noteq> CUPTI_SUCCESS
        \<and> (\<exists>t d S. t \<in> set names \<and> (t, d) \<in> set known_domains
               \<and> res' = cuptiEnableDomain v S d)"
    by (intro impI) (rule first_refusal_Some)
  show "(s, d) \<in> set known_domains \<and> cuptiEnableDomain v enabled d \<noteq> CUPTI_SUCCESS \<longrightarrow>
        first_refusal v (s # ss) enabled = Some (cuptiEnableDomain v enabled d)"
    by (auto simp: map_of_known)
  show "(s, d) \<in> set known_domains \<and> cuptiEnableDomain v enabled d = CUPTI_SUCCESS \<longrightarrow>
        first_refusal v (s # ss) enabled = first_refusal v ss (insert d enabled)"
    by (auto simp: map_of_known)
  show "s' \<notin> fst ` set known_domains \<longrightarrow>
        first_refusal v (s' # ss) enabled = first_refusal v ss enabled"
    by (auto simp: map_of_unknown)
  show "(s, d) \<in> set known_domains \<and> s \<in> set names
        \<and> (\<forall>S. cuptiEnableDomain v S d \<noteq> CUPTI_SUCCESS) \<longrightarrow>
        first_refusal v names enabled \<noteq> None"
    using first_refusal_always [of s d v names enabled] by blast
qed

theorem initialization_aborts_witness:
  "connects (new_events initial_state
       (cuptiservice_initialize (example_vendor\<lparr>cuptiSubscribe := CUPTI_ERROR 1\<rparr>)
          example_config initial_state)) = []
   \<and> last (trace
       (cuptiservice_initialize (example_vendor\<lparr>cuptiSubscribe := CUPTI_ERROR 1\<rparr>)
          example_config initial_state)) =
       Log 0 [Text ''cupti: '', Text ''cuptiSubscribe'', Text '': error: '',
              Text ''CUPTI_ERROR_INVALID_PARAMETER'']
   \<and> first_refusal
       (example_vendor\<lparr>cuptiEnableDomain :=
          (\<lambda>enabled d. if d = CUPTI_CB_DOMAIN_RESOURCE \<and> CUPTI_CB_DOMAIN_SYNCHRONIZE \<in> enabled
                        then CUPTI_ERROR 2 else CUPTI_SUCCESS)\<rparr>)
       [''sync'', ''resource''] {} = Some (CUPTI_ERROR 2)
   \<and> connects (new_events initial_state
       (cuptiservice_initialize
          (example_vendor\<lparr>cuptiEnableDomain :=
             (\<lambda>enabled d. if d = CUPTI_CB_DOMAIN_RESOURCE \<and> CUPTI_CB_DOMAIN_SYNCHRONIZE \<in> enabled
                           then CUPTI_ERROR 2 else CUPTI_SUCCESS)\<rparr>)
          example_config initial_state)) = []
   \<and> last (trace
       (cuptiservice_initialize
          (example_vendor\<lparr>cuptiEnableDomain :=
             (\<lambda>enabled d. if d = CUPTI_CB_DOMAIN_RESOURCE \<and> CUPTI_CB_DOMAIN_SYNCHRONIZE \<in> enabled
                           then CUPTI_ERROR 2 else CUPTI_SUCCESS)\<rparr>)
          example_config initial_state)) =
       Log 0 [Text ''cupti: '', Text ''cuptiEnableDomain'', Text '': error: '',
              Text ''CUPTI_ERROR_INVALID_DEVICE'']
   \<and> first_refusal
       (example_vendor\<lparr>cuptiEnableDomain :=
          (\<lambda>enabled d. if d = CUPTI_CB_DOMAIN_NVTX then CUPTI_ERROR 1 else CUPTI_SUCCESS)\<rparr>)
       [''gpu'', ''sync'', ''nvtx''] {} \<noteq> None
   \<and> first_refusal
       (example_vendor\<lparr>cuptiEnableDomain :=
          (\<lambda>enabled d. if d = CUPTI_CB_DOMAIN_NVTX then CUPTI_ERROR 1 else CUPTI_SUCCESS)\<rparr>)
       [''gpu'', ''sync'', ''nvtx''] {} =
     first_refusal
       (example_vendor\<lparr>cuptiEnableDomain :=
          (\<lambda>enabled d. if d = CUPTI_CB_DOMAIN_NVTX then CUPTI_ERROR 1 else CUPTI_SUCCESS)\<rparr>)
       [''sync'', ''nvtx''] {}
   \<and> (\<exists>t d S. t \<in> set [''sync'', ''resource''] \<and> (t, d) \<in> set known_domains
        \<and> CUPTI_ERROR 2 =
            cuptiEnableDomain
              (example_vendor\<lparr>cuptiEnableDomain :=
                 (\<lambda>enabled d. if d = CUPTI_CB_DOMAIN_RESOURCE \<and> CUPTI_CB_DOMAIN_SYNCHRONIZE \<in> enabled
                               then CUPTI_ERROR 2 else CUPTI_SUCCESS)\<rparr>) S d)"
proof -
  let ?v1 = "example_vendor\<lparr>cuptiSubscribe := CUPTI_ERROR 1\<rparr>"
  let ?v2 = "example_vendor\<lparr>cuptiEnableDomain :=
             (\<lambda>enabled d. if d = CUPTI_CB_DOMAIN_RESOURCE \<and> CUPTI_CB_DOMAIN_SYNCHRONIZE \<in> enabled
                           then CUPTI_ERROR 2 else CUPTI_SUCCESS)\<rparr>"
  let ?v3 = "example_vendor\<lparr>cuptiEnableDomain :=
          (\<lambda>enabled d. if d = CUPTI_CB_DOMAIN_NVTX then CUPTI_ERROR 1 else CUPTI_SUCCESS)\<rparr>"
  note t1 = initialization_aborts [of ?v1 initial_state example_config]
  note t2 = initialization_aborts [of ?v2 initial_state example_config "CUPTI_ERROR 2"
      "[''resource'']" "{CUPTI_CB_DOMAIN_SYNCHRONIZE}" "CUPTI_ERROR 2"
      "''resource''" CUPTI_CB_DOMAIN_RESOURCE "[]" "''gpu''"]
  note t3 = initialization_aborts [of ?v2 initial_state example_config "CUPTI_ERROR 2"
      "[''resource'']" "{}" "CUPTI_ERROR 2"
      "''sync''" CUPTI_CB_DOMAIN_SYNCHRONIZE "[''resource'']" "''gpu''"]
  note t4 = initialization_aborts [of ?v3 initial_state example_config "CUPTI_ERROR 2"
      "[''gpu'', ''sync'', ''nvtx'']" "{}" "CUPTI_ERROR 2"
      "''nvtx''" CUPTI_CB_DOMAIN_NVTX "[]" "''gpu''"]
  note t5 = initialization_aborts [of ?v3 initial_state example_config "CUPTI_ERROR 2"
      "[''gpu'', ''sync'', ''nvtx'']" "{}" "CUPTI_ERROR 2"
      "''nvtx''" CUPTI_CB_DOMAIN_NVTX "[''sync'', ''nvtx'']" "''gpu''"]
  have kr: "(''resource'', CUPTI_CB_DOMAIN_RESOURCE) \<in> set known_domains"
    and ks: "(''sync'', CUPTI_CB_DOMAIN_SYNCHRONIZE) \<in> set known_domains"
    and kn: "(''nvtx'', CUPTI_CB_DOMAIN_NVTX) \<in> set known_domains"
    and ug: "''gpu'' \<notin> fst ` set known_domains"
    by (simp_all add: known_domains_eq)
  have names: "requested_names example_config True = [''sync'', ''resource'']"
    by (simp add: requested_names_def to_stringlist_sync)
  have sampling: "(0 < cfg_sample_event_id example_config
      \<or> is_enabled (event_sampling initial_state)) = True"
    by simp
  have h1: "cuptiSubscribe ?v1 \<noteq> CUPTI_SUCCESS"
    by simp
  have f1: "first_refusal ?v2 [''resource''] {CUPTI_CB_DOMAIN_SYNCHRONIZE} = Some (CUPTI_ERROR 2)"
    using t2 [THEN conjunct2, THEN conjunct2, THEN conjunct2, THEN conjunct1] kr by simp
  have f2: "first_refusal ?v2 [''sync'', ''resource''] {} = Some (CUPTI_ERROR 2)"
    using t3 [THEN conjunct2, THEN conjunct2, THEN conjunct2, THEN conjunct2, THEN conjunct1]
      ks f1
    by (simp del: first_refusal.simps)
  have f3: "first_refusal ?v3 [''gpu'', ''sync'', ''nvtx''] {} = first_refusal ?v3 [''sync'', ''nvtx''] {}"
    using t5 [THEN conjunct2, THEN conjunct2, THEN conjunct2, THEN conjunct2, THEN conjunct2,
              THEN conjunct1] ug
    by (simp del: first_refusal.simps)
  have f4: "first_refusal ?v3 [''gpu'', ''sync'', ''nvtx''] {} \<noteq> None"
    using t4 [THEN conjunct2, THEN conjunct2, THEN conjunct2, THEN conjunct2, THEN conjunct2,
              THEN conjunct2] kn
    by (simp del: first_refusal.simps)
  have f5: "\<exists>t d S. t \<in> set [''sync'', ''resource''] \<and> (t, d) \<in> set known_domains
      \<and> CUPTI_ERROR 2 = cuptiEnableDomain ?v2 S d"
    using initialization_aborts [of ?v2 initial_state example_config "CUPTI_ERROR 2"
      "[''sync'', ''resource'']" "{}" "CUPTI_ERROR 2", THEN conjunct2, THEN conjunct2,
      THEN conjunct1, THEN mp, OF f2]
    by (simp del: first_refusal.simps)
  have h2: "cuptiSubscribe ?v2 = CUPTI_SUCCESS
        \<and> first_refusal ?v2
            (requested_names example_config
               (0 < cfg_sample_event_id example_config
                \<or> is_enabled (event_sampling initial_state)))
            (enabled_domains initial_state) = Some (CUPTI_ERROR 2)"
    unfolding sampling names using f2 by (simp del: first_refusal.simps)
  note a = t1 [THEN conjunct1, THEN mp, OF h1]
  note b = t2 [THEN conjunct2, THEN conjunct1, THEN mp, OF h2]
  have 1: "connects (new_events initial_state
       (cuptiservice_initialize ?v1 example_config initial_state)) = []"
    using a by simp
  have 2: "last (trace (cuptiservice_initialize ?v1 example_config initial_state)) =
       Log 0 [Text ''cupti: '', Text ''cuptiSubscribe'', Text '': error: '',
              Text ''CUPTI_ERROR_INVALID_PARAMETER'']"
    using a by simp
  have 3: "connects (new_events initial_state
       (cuptiservice_initialize ?v2 example_config initial_state)) = []"
    using b by simp
  have 4: "last (trace (cuptiservice_initialize ?v2 example_config initial_state)) =
       Log 0 [Text ''cupti: '', Text ''cuptiEnableDomain'', Text '': error: '',
              Text ''CUPTI_ERROR_INVALID_DEVICE'']"
    using b by simp
  show ?thesis
    by (intro conjI) (rule 1 2 f2 3 4 f4 f3 f5)+
qed

subsection \<open>NVTX ranges\<close>

text \<open>
  Claim C7. Each push form (\<^verbatim>\<open>nvtxRangePushA\<close>, \<^verbatim>\<open>nvtxRangePushEx\<close> and the
  domain-scoped \<^verbatim>\<open>nvtxDomainRangePushEx\<close>) begins the attribute
  \<^verbatim>\<open>nvtx_range_attr\<close> with the message and the stored length
  \<^verbatim>\<open>strlen(msg)+1\<close>, one more than the length of the text; each pop form ends the
  same attribute; a domain-scoped form does what the global form does, whatever the
  domain handle.
\<close>

theorem handle_nvtx_ranges:
  "handle_nvtx (CUPTI_CBID_NVTX_nvtxRangePushA msg) st =
     st\<lparr>num_nvtx_cb := num_nvtx_cb st + 1,
        trace := trace st @ [Cali_begin (nvtx_range_attr (cupti_info st))
                               (Variant_string msg (strlen msg + 1))]\<rparr>
   \<and> handle_nvtx (CUPTI_CBID_NVTX_nvtxRangePushEx msg) st =
       handle_nvtx (CUPTI_CBID_NVTX_nvtxRangePushA msg) st
   \<and> handle_nvtx (CUPTI_CBID_NVTX_nvtxDomainRangePushEx handle msg) st =
       handle_nvtx (CUPTI_CBID_NVTX_nvtxRangePushA msg) st
   \<and> handle_nvtx CUPTI_CBID_NVTX_nvtxRangePop st =
       st\<lparr>num_nvtx_cb := num_nvtx_cb st + 1,
          trace := trace st @ [Cali_end (nvtx_range_attr (cupti_info st))]\<rparr>
   \<and> handle_nvtx (CUPTI_CBID_NVTX_nvtxDomainRangePop handle) st =
       handle_nvtx CUPTI_CBID_NVTX_nvtxRangePop st
   \<and> (CHR 0x00 \<notin> set msg \<longrightarrow> strlen msg + 1 = length msg + 1)"
proof -
  have "strlen msg = length msg" if "CHR 0x00 \<notin> set msg"
    using that unfolding strlen_def by (induction msg) auto
  then show ?thesis
    by (simp add: handle_nvtx_def emit_def)
qed

theorem handle_nvtx_ranges_witness:
  "new_events running_state
     (handle_nvtx (CUPTI_CBID_NVTX_nvtxDomainRangePushEx 3 ''solve'') running_state) =
     [Cali_begin (Attribute ''nvtx.range'' CALI_TYPE_STRING CALI_ATTR_NESTED)
        (Variant_string ''solve'' 6)]
   \<and> new_events running_state
     (handle_nvtx (CUPTI_CBID_NVTX_nvtxDomainRangePop 3) running_state) =
     [Cali_end (Attribute ''nvtx.range'' CALI_TYPE_STRING CALI_ATTR_NESTED)]
   \<and> CHR 0x00 \<notin> set ''solve'' \<and> strlen ''solve'' + 1 = length ''solve'' + 1"
  using handle_nvtx_ranges [of "''solve''" running_state 3]
  by (simp add: running_state_info)

subsection \<open>The lengths of the tags\<close>

text \<open>
  Claim C9. The tag of every record that the resource and the synchronize handler emit
  is a string value whose stored length is \<^verbatim>\<open>strlen(tag)+1\<close>, for each of
  \<^verbatim>\<open>create_context\<close>, \<^verbatim>\<open>destroy_context\<close>, \<^verbatim>\<open>create_stream\<close>,
  \<^verbatim>\<open>destroy_stream\<close>, \<^verbatim>\<open>stream\<close> and \<^verbatim>\<open>context\<close>; a callback whose ids
  do not resolve, or whose callback id has no case, stores no tag.
\<close>

theorem tag_lengths:
  "tags (new_events st (handle_resource v CUPTI_CBID_RESOURCE_CONTEXT_CREATED rdata st)) =
     (if cuptiGetDeviceId v (res_context rdata) \<noteq> None
         \<and> cuptiGetContextId v (res_context rdata) \<noteq> None
      then [Variant_string ''create_context'' (strlen ''create_context'' + 1)] else [])
   \<and> tags (new_events st (handle_resource v CUPTI_CBID_RESOURCE_CONTEXT_DESTROY_STARTING rdata st)) =
     (if cuptiGetDeviceId v (res_context rdata) \<noteq> None
         \<and> cuptiGetContextId v (res_context rdata) \<noteq> None
      then [Variant_string ''destroy_context'' (strlen ''destroy_context'' + 1)] else [])
   \<and> tags (new_events st (handle_resource v CUPTI_CBID_RESOURCE_STREAM_CREATED rdata st)) =
     (if cuptiGetDeviceId v (res_context rdata) \<noteq> None
         \<and> cuptiGetContextId v (res_context rdata) \<noteq> None
         \<and> cuptiGetStreamId v (res_context rdata) (res_stream rdata) \<noteq> None
      then [Variant_string ''create_stream'' (strlen ''create_stream'' + 1)] else [])
   \<and> tags (new_events st (handle_resource v CUPTI_CBID_RESOURCE_STREAM_DESTROY_STARTING rdata st)) =
     (if cuptiGetDeviceId v (res_context rdata) \<noteq> None
         \<and> cuptiGetContextId v (res_context rdata) \<noteq> None
         \<and> cuptiGetStreamId v (res_context rdata) (res_stream rdata) \<noteq> None
      then [Variant_string ''destroy_stream'' (strlen ''destroy_stream'' + 1)] else [])
   \<and> tags (new_events st (handle_resource v (CUPTI_CBID_RESOURCE_OTHER n) rdata st)) = []
   \<and> tags (new_events st (handle_synchronize v CUPTI_CBID_SYNCHRONIZE_STREAM_SYNCHRONIZED sdata st)) =
     (if cuptiGetDeviceId v (sync_context sdata) \<noteq> None
         \<and> cuptiGetContextId v (sync_context sdata) \<noteq> None
         \<and> cuptiGetStreamId v (sync_context sdata) (sync_stream sdata) \<noteq> None
      then [Variant_string ''stream'' (strlen ''stream'' + 1)] else [])
   \<and> tags (new_events st (handle_synchronize v CUPTI_CBID_SYNCHRONIZE_CONTEXT_SYNCHRONIZED sdata st)) =
     (if cuptiGetDeviceId v (sync_context sdata) \<noteq> None
         \<and> cuptiGetContextId v (sync_context sdata) \<noteq> None
      then [Variant_string ''context'' (strlen ''context'' + 1)] else [])
   \<and> tags (new_events st (handle_synchronize v (CUPTI_CBID_SYNCHRONIZE_OTHER n) sdata st)) = []"
proof -
  have len: "strlen ''create_context'' + 1 = 15" "strlen ''destroy_context'' + 1 = 16"
    "strlen ''create_stream'' + 1 = 14" "strlen ''destroy_stream'' + 1 = 15"
    "strlen ''stream'' + 1 = 7" "strlen ''context'' + 1 = 8"
    by (simp_all add: strlen_def)
  have r1: "tags (new_events st (handle_resource v CUPTI_CBID_RESOURCE_CONTEXT_CREATED rdata st)) =
     (if cuptiGetDeviceId v (res_context rdata) \<noteq> None
         \<and> cuptiGetContextId v (res_context rdata) \<noteq> None
      then [Variant_string ''create_context'' 15] else [])"
    by (auto simp: handle_resource_def Let_def trace_handle_context_event sampling_enable_def split: option.splits)
  have r2: "tags (new_events st (handle_resource v CUPTI_CBID_RESOURCE_CONTEXT_DESTROY_STARTING rdata st)) =
     (if cuptiGetDeviceId v (res_context rdata) \<noteq> None
         \<and> cuptiGetContextId v (res_context rdata) \<noteq> None
      then [Variant_string ''destroy_context'' 16] else [])"
    by (auto simp: handle_resource_def Let_def trace_handle_context_event sampling_disable_def split: option.splits)
  have r3: "tags (new_events st (handle_resource v CUPTI_CBID_RESOURCE_STREAM_CREATED rdata st)) =
     (if cuptiGetDeviceId v (res_context rdata) \<noteq> None
         \<and> cuptiGetContextId v (res_context rdata) \<noteq> None
         \<and> cuptiGetStreamId v (res_context rdata) (res_stream rdata) \<noteq> None
      then [Variant_string ''create_stream'' 14] else [])"
    by (auto simp: handle_resource_def Let_def trace_handle_stream_event split: option.splits)
  have r4: "tags (new_events st (handle_resource v CUPTI_CBID_RESOURCE_STREAM_DESTROY_STARTING rdata st)) =
     (if cuptiGetDeviceId v (res_context rdata) \<noteq> None
         \<and> cuptiGetContextId v (res_context rdata) \<noteq> None
         \<and> cuptiGetStreamId v (res_context rdata) (res_stream rdata) \<noteq> None
      then [Variant_string ''destroy_stream'' 15] else [])"
    by (auto simp: handle_resource_def Let_def trace_handle_stream_event split: option.splits)
  have r5: "tags (new_events st (handle_resource v (CUPTI_CBID_RESOURCE_OTHER n) rdata st)) = []"
    by (simp add: handle_resource_def new_events_def)
  have s1: "tags (new_events st (handle_synchronize v CUPTI_CBID_SYNCHRONIZE_STREAM_SYNCHRONIZED sdata st)) =
     (if cuptiGetDeviceId v (sync_context sdata) \<noteq> None
         \<and> cuptiGetContextId v (sync_context sdata) \<noteq> None
         \<and> cuptiGetStreamId v (sync_context sdata) (sync_stream sdata) \<noteq> None
      then [Variant_string ''stream'' 7] else [])"
    by (auto simp: handle_synchronize_def Let_def trace_handle_stream_event split: option.splits)
  have s2: "tags (new_events st (handle_synchronize v CUPTI_CBID_SYNCHRONIZE_CONTEXT_SYNCHRONIZED sdata st)) =
     (if cuptiGetDeviceId v (sync_context sdata) \<noteq> None
         \<and> cuptiGetContextId v (sync_context sdata) \<noteq> None
      then [Variant_string ''context'' 8] else [])"
    by (auto simp: handle_synchronize_def Let_def trace_handle_context_event split: option.splits)
  have s3: "tags (new_events st (handle_synchronize v (CUPTI_CBID_SYNCHRONIZE_OTHER n) sdata st)) = []"
    by (simp add: handle_synchronize_def new_events_def)
  show ?thesis
    unfolding len using r1 r2 r3 r4 r5 s1 s2 s3 by blast
qed

subsection \<open>The counters\<close>

text \<open>
  Claim C10. Every delivery to the callback router adds one to \<^verbatim>\<open>num_cb\<close> (on 32
  bits), also for an unknown domain; a delivery to a domain adds one to the counter of
  that domain and leaves the other counters alone, whatever the callback id; the runtime
  and the driver domain both count in \<^verbatim>\<open>num_api_cb\<close>; a delivery that has no
  case in its handler is counted and appends nothing to the trace.
\<close>

theorem cupti_callback_counters:
  "num_cb (cupti_callback v cb st) = num_cb st + 1
   \<and> unat (num_cb (cupti_callback v cb st)) = (unat (num_cb st) + 1) mod 2 ^ 32
   \<and> counters (cupti_callback v (CB_RESOURCE rid rdata) st) =
       (num_cb st + 1, num_api_cb st, num_resource_cb st + 1, num_sync_cb st, num_nvtx_cb st)
   \<and> counters (cupti_callback v (CB_SYNCHRONIZE sid sdata) st) =
       (num_cb st + 1, num_api_cb st, num_resource_cb st, num_sync_cb st + 1, num_nvtx_cb st)
   \<and> counters (cupti_callback v (CB_RUNTIME_API cbid cdata) st) =
       (num_cb st + 1, num_api_cb st + 1, num_resource_cb st, num_sync_cb st, num_nvtx_cb st)
   \<and> counters (cupti_callback v (CB_DRIVER_API cbid cdata) st) =
       (num_cb st + 1, num_api_cb st + 1, num_resource_cb st, num_sync_cb st, num_nvtx_cb st)
   \<and> counters (cupti_callback v (CB_NVTX ndata) st) =
       (num_cb st + 1, num_api_cb st, num_resource_cb st, num_sync_cb st, num_nvtx_cb st + 1)
   \<and> counters (cupti_callback v (CB_UNKNOWN n) st) =
       (num_cb st + 1, num_api_cb st, num_resource_cb st, num_sync_cb st, num_nvtx_cb st)
   \<and> trace (cupti_callback v (CB_RESOURCE (CUPTI_CBID_RESOURCE_OTHER n) rdata) st) = trace st
   \<and> trace (cupti_callback v (CB_SYNCHRONIZE (CUPTI_CBID_SYNCHRONIZE_OTHER n) sdata) st) = trace st
   \<and> trace (cupti_callback v (CB_NVTX (CUPTI_CBID_NVTX_OTHER n)) st) = trace st
   \<and> trace (cupti_callback v (CB_RUNTIME_API cbid
               (cdata\<lparr>callbackSite := CUPTI_API_CBSITE_OTHER\<rparr>)) st) = trace st"
proof -
  have c: "counters (cupti_callback v cb st) =
      (case cb of
         CB_RESOURCE a b \<Rightarrow>
           (num_cb st + 1, num_api_cb st, num_resource_cb st + 1, num_sync_cb st, num_nvtx_cb st)
       | CB_SYNCHRONIZE a b \<Rightarrow>
           (num_cb st + 1, num_api_cb st, num_resource_cb st, num_sync_cb st + 1, num_nvtx_cb st)
       | CB_RUNTIME_API a b \<Rightarrow>
           (num_cb st + 1, num_api_cb st + 1, num_resource_cb st, num_sync_cb st, num_nvtx_cb st)
       | CB_DRIVER_API a b \<Rightarrow>
           (num_cb st + 1, num_api_cb st + 1, num_resource_cb st, num_sync_cb st, num_nvtx_cb st)
       | CB_NVTX b \<Rightarrow>
           (num_cb st + 1, num_api_cb st, num_resource_cb st, num_sync_cb st, num_nvtx_cb st + 1)
       | CB_UNKNOWN k \<Rightarrow>
           (num_cb st + 1, num_api_cb st, num_resource_cb st, num_sync_cb st, num_nvtx_cb st))"
    for cb
    by (cases cb)
       (simp_all add: cupti_callback_def Let_def counters_handle_resource
          counters_handle_synchronize counters_handle_callback counters_handle_nvtx,
        simp add: counters_def)
  have n: "num_cb (cupti_callback v cb st) = num_cb st + 1"
    using c [of cb] by (cases cb) (simp_all add: counters_def)
  have u: "unat (num_cb st + 1) = (unat (num_cb st) + 1) mod 2 ^ 32"
    by (simp add: unat_word_ariths)
  have t: "trace (cupti_callback v (CB_RESOURCE (CUPTI_CBID_RESOURCE_OTHER n) rdata) st) = trace st"
    "trace (cupti_callback v (CB_SYNCHRONIZE (CUPTI_CBID_SYNCHRONIZE_OTHER n) sdata) st) = trace st"
    "trace (cupti_callback v (CB_NVTX (CUPTI_CBID_NVTX_OTHER n)) st) = trace st"
    "trace (cupti_callback v (CB_RUNTIME_API cbid
               (cdata\<lparr>callbackSite := CUPTI_API_CBSITE_OTHER\<rparr>)) st) = trace st"
    by (simp_all add: cupti_callback_def handle_resource_def handle_synchronize_def
          handle_nvtx_def handle_callback_def)
  show ?thesis
    using c [of "CB_RESOURCE rid rdata"] c [of "CB_SYNCHRONIZE sid sdata"]
      c [of "CB_RUNTIME_API cbid cdata"] c [of "CB_DRIVER_API cbid cdata"]
      c [of "CB_NVTX ndata"] c [of "CB_UNKNOWN n"] n u t
    by simp
qed

end
